theory Spec2Isabelle
  imports
    Main
    "HOL-Library.Char_ord"
    "HOL-Library.List_Lexorder"
    "HOL-Library.Product_Lexorder"
    "HOL-Library.Multiset"
begin

section \<open>Data model\<close>

text \<open>
  The server (\<^verbatim>\<open>src/server/index.js\<close>) keeps two MongoDB collections, described by the
  mongoose schemas \<^verbatim>\<open>AvailableSlot\<close> and \<^verbatim>\<open>Booking\<close>, and one in-process set of admin
  session tokens. Timestamps are milliseconds since the epoch, as \<^verbatim>\<open>Date.now()\<close> gives
  them.
\<close>

subsection \<open>Object ids\<close>

text \<open>
  The \<^verbatim>\<open>_id\<close> of a document and the \<^verbatim>\<open>slotId\<close> of a booking
  (\<^verbatim>\<open>type: mongoose.Schema.Types.ObjectId\<close>) are object ids: twelve bytes, written by
  \<^verbatim>\<open>toString()\<close> as 24 hexadecimal digits in lower case. The type \<open>oid\<close> is the type of
  these texts; \<open>ObjectId v\<close> is the object id written \<open>v\<close>. The identifiers that arrive
  in a request are plain strings, and a query casts them (\<open>castObjectId\<close> below).
\<close>

definition hexdigits :: string where
  "hexdigits = ''0123456789abcdef''"

definition isObjectIdString :: "string \<Rightarrow> bool" where
  "isObjectIdString v = (length v = 24 \<and> set v \<subseteq> set hexdigits)"

typedef oid = "{v. isObjectIdString v}"
  morphisms toString ObjectId
proof
  show "replicate 24 (CHR ''0'') \<in> {v. isObjectIdString v}"
    by (simp add: isObjectIdString_def hexdigits_def)
qed

text \<open>A document of the \<^verbatim>\<open>AvailableSlot\<close> collection. \<^verbatim>\<open>isAvailable\<close> may be absent in a
  stored document (the list route tests it against \<^verbatim>\<open>undefined\<close>).\<close>

record slot =
  s_id :: oid
  s_date :: string
  s_time :: string
  s_isAvailable :: "bool option"

text \<open>A document of the \<^verbatim>\<open>Booking\<close> collection; \<^verbatim>\<open>createdAt\<close> comes from the schema option
  \<^verbatim>\<open>timestamps: true\<close>.\<close>

record booking =
  b_id :: oid
  b_slotId :: oid
  b_date :: string
  b_time :: string
  b_clientName :: string
  b_clientEmail :: string
  b_clientPhone :: string
  b_createdAt :: nat

text \<open>A \<^verbatim>\<open>new Booking({...})\<close> before \<^verbatim>\<open>save()\<close> has stamped it.\<close>

record new_booking =
  n_id :: oid
  n_slotId :: oid
  n_date :: string
  n_time :: string
  n_clientName :: string
  n_clientEmail :: string
  n_clientPhone :: string

text \<open>
  The state of the process and of the store it talks to: \<^verbatim>\<open>mongoose.connection.readyState\<close>
  (1 means connected), the two collections in the store's natural order, the set
  \<^verbatim>\<open>adminSessions\<close>, the value of the environment variable \<^verbatim>\<open>ADMIN_PASSWORD\<close>, and one
  fact about the installed \<^verbatim>\<open>bson\<close> library, which the source does not pin: whether its
  \<^verbatim>\<open>ObjectId\<close> constructor takes a string of 12 characters as the twelve bytes of an id
  (the versions before 6 do, the later ones do not).
\<close>

record state =
  readyState :: nat
  slots :: "slot list"
  bookings :: "booking list"
  adminSessions :: "string set"
  env_ADMIN_PASSWORD :: "string option"
  bson_string12 :: bool

text \<open>An exception raised by a query, the \<^verbatim>\<open>error\<close> that a handler finds in its
  \<^verbatim>\<open>catch\<close> block: \<open>MongoError code message\<close> is an error of the store, and code 11000 is
  the duplicate-key error of a unique index; \<open>CastError v\<close> is the error that mongoose
  raises when it cannot cast the value \<open>v\<close> to an object id, and it has no \<^verbatim>\<open>code\<close>. The
  text of its message is abridged.\<close>

datatype store_error = MongoError nat string | CastError string

fun code :: "store_error \<Rightarrow> nat option" where
  \<comment> \<open>\<^verbatim>\<open>error.code\<close>, \<open>None\<close> for \<^verbatim>\<open>undefined\<close>\<close>
  "code (MongoError c m) = Some c"
| "code (CastError v) = None"

fun message :: "store_error \<Rightarrow> string" where
  "message (MongoError c m) = m"
| "message (CastError v) = ''Cast to ObjectId failed for value '' @ v"

definition duplicate_key :: store_error where
  "duplicate_key = MongoError 11000 ''E11000 duplicate key error''"

text \<open>What a handler takes from its surroundings when it runs: the clock, the object id
  that a freshly constructed document receives, the digits after the point of
  \<^verbatim>\<open>Math.random()\<close> written in base 36, and the failure, if any, with which a query ends
  for a reason that lies outside the collections and the request: a lost connection, a
  timeout, a document that fails the validation of its schema.\<close>

record env =
  now :: nat
  freshId :: oid
  rnd :: "nat list"
  fault :: "store_error option"

subsection \<open>Responses\<close>

text \<open>
  The fixed texts the server sends, one constructor per literal of the source:
  \<^item> \<open>NotAuthorized\<close>: 'Nicht autorisiert. Admin-Zugriff erforderlich.'
  \<^item> \<open>PasswordRequired\<close>: 'Passwort ist erforderlich'
  \<^item> \<open>InvalidPassword\<close>: 'Ungueltiges Passwort'
  \<^item> \<open>LoginFailed\<close>: 'Serverfehler bei der Anmeldung'
  \<^item> \<open>DbNotConnected_de\<close>: 'Datenbank nicht verbunden. Bitte MongoDB-Verbindung ueberpruefen.'
  \<^item> \<open>DbNotConnected_en\<close>: 'Database not connected. Please try again later.'
  \<^item> \<open>DateTimeRequired\<close>: 'Datum und Uhrzeit sind erforderlich'
  \<^item> \<open>SlotExists_de\<close>: 'Dieser Platz existiert bereits'
  \<^item> \<open>SlotExists_en\<close>: 'This slot already exists'
  \<^item> \<open>SlotAddFailed m\<close>: 'Platz konnte nicht hinzugefuegt werden: ' + m
  \<^item> \<open>SlotHasBooking\<close>: 'Platz mit einer Buchung kann nicht geloescht werden'
  \<^item> \<open>SlotNotFound\<close>: 'Platz nicht gefunden'
  \<^item> \<open>SlotDeleted\<close>: 'Platz erfolgreich geloescht'
  \<^item> \<open>SlotDeleteFailed m\<close>: 'Platz konnte nicht geloescht werden: ' + m
  \<^item> \<open>BookingsFetchFailed\<close>: 'Buchungen konnten nicht abgerufen werden'
  \<^item> \<open>BookingFieldsRequired\<close>: 'Platz-ID, Kundenname und E-Mail sind erforderlich'
  \<^item> \<open>AlreadyBooked_de\<close>: 'Dieser Platz ist bereits gebucht'
  \<^item> \<open>AlreadyBooked_en\<close>: 'This slot is already booked'
  \<^item> \<open>BookingFailed m\<close>: 'Buchung konnte nicht erstellt werden: ' + m
  \<^item> \<open>BookingNotFound\<close>: 'Buchung nicht gefunden'
  \<^item> \<open>BookingCancelled\<close>: 'Buchung erfolgreich storniert'
  \<^item> \<open>BookingCancelFailed m\<close>: 'Buchung konnte nicht storniert werden: ' + m
\<close>

datatype text_msg =
    NotAuthorized
  | PasswordRequired
  | InvalidPassword
  | LoginFailed
  | DbNotConnected_de
  | DbNotConnected_en
  | DateTimeRequired
  | SlotExists_de
  | SlotExists_en
  | SlotAddFailed string
  | SlotHasBooking
  | SlotNotFound
  | SlotDeleted
  | SlotDeleteFailed string
  | BookingsFetchFailed
  | BookingFieldsRequired
  | AlreadyBooked_de
  | AlreadyBooked_en
  | BookingFailed string
  | BookingNotFound
  | BookingCancelled
  | BookingCancelFailed string

record slot_json =
  j_id :: oid
  j_date :: string
  j_time :: string
  j_isAvailable :: bool

record booking_json =
  k_id :: oid
  k_slotId :: oid
  k_date :: string
  k_time :: string
  k_clientName :: string
  k_clientEmail :: string
  k_clientPhone :: string
  k_createdAt :: nat

record client_info =
  i_clientName :: string
  i_clientEmail :: string
  i_clientPhone :: string

record status_json =
  t_id :: oid
  t_date :: string
  t_time :: string
  t_isBooked :: bool
  t_booking :: "client_info option"

text \<open>The JSON bodies: \<open>Error m\<close> is \<^verbatim>\<open>{error: m}\<close>, \<open>Message m\<close> is \<^verbatim>\<open>{message: m}\<close>,
  \<open>LoginSuccess t\<close> is \<^verbatim>\<open>{success: true, token: t}\<close>, \<open>Success\<close> is \<^verbatim>\<open>{success: true}\<close>,
  \<open>Authenticated\<close> is \<^verbatim>\<open>{authenticated: true}\<close>; the others are the arrays and objects of
  slots and bookings.\<close>

datatype payload =
    Error text_msg
  | Message text_msg
  | LoginSuccess string
  | Success
  | Authenticated
  | SlotArray "slot_json list"
  | SlotObject slot_json
  | BookingArray "booking_json list"
  | BookingObject booking_json
  | StatusArray "status_json list"

record response =
  status :: nat
  body :: payload

definition json :: "payload \<Rightarrow> response" where
  \<comment> \<open>\<^verbatim>\<open>res.json(x)\<close>: status 200 unless set.\<close>
  "json x = \<lparr>status = 200, body = x\<rparr>"

definition with_status :: "nat \<Rightarrow> payload \<Rightarrow> response" where
  \<comment> \<open>\<^verbatim>\<open>res.status(n).json(x)\<close>\<close>
  "with_status n x = \<lparr>status = n, body = x\<rparr>"

subsection \<open>JavaScript values\<close>

definition falsy :: "string option \<Rightarrow> bool" where
  \<comment> \<open>\<^verbatim>\<open>!x\<close> for a field that is a string or absent: true for \<^verbatim>\<open>undefined\<close> and for \<^verbatim>\<open>''\<close>.\<close>
  "falsy x = (case x of None \<Rightarrow> True | Some v \<Rightarrow> v = [])"

definition or_empty :: "string option \<Rightarrow> string" where
  \<comment> \<open>\<^verbatim>\<open>x || ''\<close>\<close>
  "or_empty x = (case x of None \<Rightarrow> [] | Some v \<Rightarrow> v)"

definition startsWith :: "string \<Rightarrow> string \<Rightarrow> bool" where
  "startsWith s pat = (take (length pat) s = pat)"

fun replace :: "string \<Rightarrow> string \<Rightarrow> string \<Rightarrow> string" where
  \<comment> \<open>\<^verbatim>\<open>s.replace(pat, rep)\<close> with a string pattern: only the first occurrence is replaced.\<close>
  "replace [] pat rep = (if pat = [] then rep else [])"
| "replace (c # cs) pat rep =
     (if startsWith (c # cs) pat then rep @ drop (length pat) (c # cs)
      else c # replace cs pat rep)"

definition substr :: "string \<Rightarrow> nat \<Rightarrow> nat \<Rightarrow> string" where
  \<comment> \<open>\<^verbatim>\<open>s.substr(start, len)\<close> for a start that is not negative\<close>
  "substr s start len = take len (drop start s)"

definition digit10 :: "nat \<Rightarrow> char" where
  "digit10 d = ''0123456789'' ! (d mod 10)"

definition alphabet36 :: string where
  "alphabet36 = ''0123456789abcdefghijklmnopqrstuvwxyz''"

definition digit36 :: "nat \<Rightarrow> char" where
  "digit36 d = alphabet36 ! (d mod 36)"

fun toString10 :: "nat \<Rightarrow> string" where
  \<comment> \<open>\<^verbatim>\<open>n.toString()\<close> of a non-negative integer\<close>
  "toString10 n = (if n < 10 then [digit10 n] else toString10 (n div 10) @ [digit10 n])"

definition toString36 :: "nat list \<Rightarrow> string" where
  \<comment> \<open>\<^verbatim>\<open>Math.random().toString(36)\<close>: the value lies in [0, 1), so the text is \<^verbatim>\<open>0\<close> or
      \<^verbatim>\<open>0.\<close> followed by the base-36 digits of the fraction.\<close>
  "toString36 ds = (if ds = [] then ''0'' else ''0.'' @ map digit36 ds)"

declare toString10.simps [simp del]

section \<open>The store\<close>

text \<open>
  The queries the handlers send, over the collections as lists. The unique indexes are the
  ones the schemas declare:
  \<^verbatim>\<open>availableSlotSchema.index({ date: 1, time: 1 }, { unique: true })\<close> and
  \<^verbatim>\<open>bookingSchema.index({ slotId: 1 }, { unique: true })\<close>; an insert that would break one
  raises the duplicate-key error. A query by id casts the string it is given to an object
  id and raises a cast error when it cannot. Any other failure of a query is the \<open>fault\<close>
  of the environment; \<open>fault e = None\<close> says that the store answers.
\<close>

definition await :: "env \<Rightarrow> store_error + 'a \<Rightarrow> store_error + 'a" where
  \<comment> \<open>\<^verbatim>\<open>await query\<close>: the store's failure if it has one, else the outcome of the query\<close>
  "await e r = (case fault e of Some error \<Rightarrow> Inl error | None \<Rightarrow> r)"

definition lowerHex :: "char \<Rightarrow> char" where
  "lowerHex c =
     (if c = CHR ''A'' then CHR ''a'' else if c = CHR ''B'' then CHR ''b''
      else if c = CHR ''C'' then CHR ''c'' else if c = CHR ''D'' then CHR ''d''
      else if c = CHR ''E'' then CHR ''e'' else if c = CHR ''F'' then CHR ''f'' else c)"

definition isHex24 :: "string \<Rightarrow> bool" where
  \<comment> \<open>\<^verbatim>\<open>/^[0-9a-fA-F]{24}$/\<close>\<close>
  "isHex24 v = (length v = 24 \<and> set v \<subseteq> set ''0123456789abcdefABCDEF'')"

definition hexByte :: "char \<Rightarrow> string" where
  "hexByte c = [hexdigits ! ((of_char c :: nat) div 16), hexdigits ! ((of_char c :: nat) mod 16)]"

definition castObjectId :: "bool \<Rightarrow> string \<Rightarrow> store_error + oid" where
  \<comment> \<open>The cast of a string in a query on \<^verbatim>\<open>_id\<close> or \<^verbatim>\<open>slotId\<close>: 24 hexadecimal digits in
      either case give the id they write; with the older \<^verbatim>\<open>bson\<close>, 12 characters give the id
      that has them as its bytes; any other string raises.\<close>
  "castObjectId string12 v =
     (if isHex24 v then Inr (ObjectId (map lowerHex v))
      else if string12 \<and> length v = 12 then Inr (ObjectId (concat (map hexByte v)))
      else Inl (CastError v))"

definition slot_findById :: "state \<Rightarrow> string \<Rightarrow> store_error + slot option" where
  \<comment> \<open>\<^verbatim>\<open>AvailableSlot.findById(id)\<close>\<close>
  "slot_findById s v =
     (case castObjectId (bson_string12 s) v of
        Inl error \<Rightarrow> Inl error
      | Inr i \<Rightarrow> Inr (find (\<lambda>x. s_id x = i) (slots s)))"

definition slot_findOne :: "slot list \<Rightarrow> string \<Rightarrow> string \<Rightarrow> slot option" where
  \<comment> \<open>\<^verbatim>\<open>AvailableSlot.findOne({ date, time })\<close>\<close>
  "slot_findOne ss d t = find (\<lambda>x. s_date x = d \<and> s_time x = t) ss"

definition booking_findOne :: "state \<Rightarrow> string \<Rightarrow> store_error + booking option" where
  \<comment> \<open>\<^verbatim>\<open>Booking.findOne({ slotId })\<close>\<close>
  "booking_findOne s v =
     (case castObjectId (bson_string12 s) v of
        Inl error \<Rightarrow> Inl error
      | Inr i \<Rightarrow> Inr (find (\<lambda>x. b_slotId x = i) (bookings s)))"

definition slot_save :: "slot list \<Rightarrow> slot \<Rightarrow> store_error + slot list" where
  \<comment> \<open>\<^verbatim>\<open>newSlot.save()\<close>: the insert fails on the unique index over (date, time).\<close>
  "slot_save ss x =
     (if list_ex (\<lambda>y. s_date y = s_date x \<and> s_time y = s_time x) ss
      then Inl duplicate_key else Inr (ss @ [x]))"

definition timestamps :: "nat \<Rightarrow> new_booking \<Rightarrow> booking" where
  \<comment> \<open>the schema option \<^verbatim>\<open>timestamps: true\<close> sets \<^verbatim>\<open>createdAt\<close> when the document is saved\<close>
  "timestamps t n =
     \<lparr>b_id = n_id n, b_slotId = n_slotId n, b_date = n_date n, b_time = n_time n,
      b_clientName = n_clientName n, b_clientEmail = n_clientEmail n,
      b_clientPhone = n_clientPhone n, b_createdAt = t\<rparr>"

definition booking_save :: "booking list \<Rightarrow> booking \<Rightarrow> store_error + booking list" where
  \<comment> \<open>\<^verbatim>\<open>newBooking.save()\<close>: the insert fails on the unique index over slotId.\<close>
  "booking_save bs x =
     (if list_ex (\<lambda>y. b_slotId y = b_slotId x) bs
      then Inl duplicate_key else Inr (bs @ [x]))"

fun delete_first :: "('a \<Rightarrow> bool) \<Rightarrow> 'a list \<Rightarrow> 'a list" where
  "delete_first P [] = []"
| "delete_first P (x # xs) = (if P x then xs else x # delete_first P xs)"

definition slot_findByIdAndDelete :: "state \<Rightarrow> string \<Rightarrow> store_error + slot option \<times> slot list" where
  \<comment> \<open>\<^verbatim>\<open>AvailableSlot.findByIdAndDelete(id)\<close>: the deleted document or null, and the collection after\<close>
  "slot_findByIdAndDelete s v =
     (case castObjectId (bson_string12 s) v of
        Inl error \<Rightarrow> Inl error
      | Inr i \<Rightarrow> Inr (find (\<lambda>x. s_id x = i) (slots s), delete_first (\<lambda>x. s_id x = i) (slots s)))"

definition booking_findByIdAndDelete ::
  "state \<Rightarrow> string \<Rightarrow> store_error + booking option \<times> booking list" where
  \<comment> \<open>\<^verbatim>\<open>Booking.findByIdAndDelete(id)\<close>\<close>
  "booking_findByIdAndDelete s v =
     (case castObjectId (bson_string12 s) v of
        Inl error \<Rightarrow> Inl error
      | Inr i \<Rightarrow>
          Inr (find (\<lambda>x. b_id x = i) (bookings s), delete_first (\<lambda>x. b_id x = i) (bookings s)))"

definition slot_key :: "slot \<Rightarrow> string \<times> string" where
  "slot_key x = (s_date x, s_time x)"

definition booking_key :: "booking \<Rightarrow> string \<times> string" where
  "booking_key x = (b_date x, b_time x)"

definition slot_find_sorted :: "slot list \<Rightarrow> slot list" where
  \<comment> \<open>\<^verbatim>\<open>AvailableSlot.find().sort({ date: 1, time: 1 })\<close>: ascending by date, then by time, the
      strings compared byte by byte; documents with equal keys stay in the collection's order.\<close>
  "slot_find_sorted ss = sort_key slot_key ss"

definition booking_find_sorted :: "booking list \<Rightarrow> booking list" where
  \<comment> \<open>\<^verbatim>\<open>Booking.find().sort({ date: 1, time: 1 })\<close>\<close>
  "booking_find_sorted bs = sort_key booking_key bs"

section \<open>Session registry\<close>

definition ADMIN_PASSWORD :: "state \<Rightarrow> string" where
  \<comment> \<open>\<^verbatim>\<open>process.env.ADMIN_PASSWORD || 'admin123'\<close>\<close>
  "ADMIN_PASSWORD s =
     (if falsy (env_ADMIN_PASSWORD s) then ''admin123'' else or_empty (env_ADMIN_PASSWORD s))"

definition unauthorized :: response where
  "unauthorized = with_status 401 (Error NotAuthorized)"

definition requireAdmin :: "state \<Rightarrow> string option \<Rightarrow> response option" where
  \<comment> \<open>The middleware, given \<^verbatim>\<open>req.headers.authorization\<close>: \<open>Some r\<close> when it answers with
      \<open>r\<close> itself, \<open>None\<close> when it calls \<^verbatim>\<open>next()\<close>.\<close>
  "requireAdmin s authHeader =
     (if falsy authHeader then Some unauthorized
      else let sessionToken = replace (or_empty authHeader) ''Bearer '' [] in
        if sessionToken \<notin> adminSessions s then Some unauthorized
        else None)"

definition mintToken :: "env \<Rightarrow> string" where
  \<comment> \<open>\<^verbatim>\<open>Date.now().toString() + Math.random().toString(36).substr(2, 9)\<close>\<close>
  "mintToken e = toString10 (now e) @ substr (toString36 (rnd e)) 2 9"

definition login :: "env \<Rightarrow> state \<Rightarrow> string option \<Rightarrow> response \<times> state" where
  \<comment> \<open>\<^verbatim>\<open>POST /api/admin/login\<close>, given \<^verbatim>\<open>req.body.password\<close>\<close>
  "login e s password =
     (if falsy password then (with_status 400 (Error PasswordRequired), s)
      else if password = Some (ADMIN_PASSWORD s) then
        (let sessionToken = mintToken e in
           (json (LoginSuccess sessionToken),
            s\<lparr>adminSessions := insert sessionToken (adminSessions s)\<rparr>))
      else (with_status 401 (Error InvalidPassword), s))"

definition logout :: "state \<Rightarrow> string option \<Rightarrow> response \<times> state" where
  \<comment> \<open>\<^verbatim>\<open>POST /api/admin/logout\<close>, given \<^verbatim>\<open>req.headers.authorization\<close>\<close>
  "logout s authHeader =
     (let sessionToken = map_option (\<lambda>h. replace h ''Bearer '' []) authHeader in
        (json Success,
         if falsy sessionToken then s
         else s\<lparr>adminSessions := adminSessions s - {or_empty sessionToken}\<rparr>))"

definition admin_check :: "state \<Rightarrow> string option \<Rightarrow> response" where
  \<comment> \<open>\<^verbatim>\<open>GET /api/admin/check\<close>\<close>
  "admin_check s authHeader =
     (case requireAdmin s authHeader of Some r \<Rightarrow> r | None \<Rightarrow> json Authenticated)"

section \<open>Read routes\<close>

definition isAvailable_or_true :: "slot \<Rightarrow> bool" where
  \<comment> \<open>\<^verbatim>\<open>slot.isAvailable !== undefined ? slot.isAvailable : true\<close>\<close>
  "isAvailable_or_true x = (case s_isAvailable x of None \<Rightarrow> True | Some v \<Rightarrow> v)"

definition format_slot :: "slot \<Rightarrow> slot_json" where
  "format_slot x =
     \<lparr>j_id = s_id x, j_date = s_date x, j_time = s_time x,
      j_isAvailable = isAvailable_or_true x\<rparr>"

definition format_booking :: "booking \<Rightarrow> booking_json" where
  "format_booking x =
     \<lparr>k_id = b_id x, k_slotId = b_slotId x, k_date = b_date x, k_time = b_time x,
      k_clientName = b_clientName x, k_clientEmail = b_clientEmail x,
      k_clientPhone = b_clientPhone x, k_createdAt = b_createdAt x\<rparr>"

definition listAllSlots :: "env \<Rightarrow> state \<Rightarrow> response" where
  \<comment> \<open>\<^verbatim>\<open>GET /api/available-slots\<close>\<close>
  "listAllSlots e s =
     (if readyState s \<noteq> 1 then json (SlotArray [])
      else case await e (Inr (slot_find_sorted (slots s))) of
        Inl error \<Rightarrow> with_status 200 (SlotArray [])
      | Inr found \<Rightarrow> json (SlotArray (map format_slot found)))"

definition listBookings :: "env \<Rightarrow> state \<Rightarrow> string option \<Rightarrow> response" where
  \<comment> \<open>\<^verbatim>\<open>GET /api/bookings\<close>, behind \<^verbatim>\<open>requireAdmin\<close>\<close>
  "listBookings e s authHeader =
     (case requireAdmin s authHeader of
        Some r \<Rightarrow> r
      | None \<Rightarrow>
          if readyState s \<noteq> 1 then json (BookingArray [])
          else case await e (Inr (booking_find_sorted (bookings s))) of
            Inl error \<Rightarrow> with_status 500 (Error BookingsFetchFailed)
          | Inr found \<Rightarrow> json (BookingArray (map format_booking found)))"

definition bookableSlots :: "slot list \<Rightarrow> booking list \<Rightarrow> slot_json list" where
  \<comment> \<open>the body of \<^verbatim>\<open>GET /api/bookable-slots\<close> after its two reads: the set of booked
      ids, then one filter and one map over the slots\<close>
  "bookableSlots allSlots bks =
     (let bookedSlotIds = set (map b_slotId bks) in
        map (\<lambda>x. \<lparr>j_id = s_id x, j_date = s_date x, j_time = s_time x, j_isAvailable = True\<rparr>)
          (filter (\<lambda>x. s_id x \<notin> bookedSlotIds) allSlots))"

definition listBookableSlots :: "env \<Rightarrow> state \<Rightarrow> response" where
  \<comment> \<open>\<^verbatim>\<open>GET /api/bookable-slots\<close>; the two reads of its \<^verbatim>\<open>Promise.all\<close> are taken together\<close>
  "listBookableSlots e s =
     (if readyState s \<noteq> 1 then json (SlotArray [])
      else case await e (Inr (slots s, bookings s)) of
        Inl error \<Rightarrow> json (SlotArray [])
      | Inr (allSlots, bks) \<Rightarrow> json (SlotArray (bookableSlots allSlots bks)))"

definition bookingMap :: "booking list \<Rightarrow> oid \<rightharpoonup> client_info" where
  \<comment> \<open>\<^verbatim>\<open>bookings.forEach(booking => { if (booking.slotId) bookingMap.set(...) })\<close>; a stored
      \<^verbatim>\<open>slotId\<close> is an object id, which is never falsy, and \<^verbatim>\<open>x || ''\<close> on a string is
      the string\<close>
  "bookingMap bks =
     fold (\<lambda>b m. m(b_slotId b \<mapsto>
        \<lparr>i_clientName = b_clientName b, i_clientEmail = b_clientEmail b,
         i_clientPhone = b_clientPhone b\<rparr>)) bks Map.empty"

definition slotsWithStatus :: "slot list \<Rightarrow> booking list \<Rightarrow> status_json list" where
  "slotsWithStatus allSlots bks =
     map (\<lambda>x. let bk = bookingMap bks (s_id x) in
            \<lparr>t_id = s_id x, t_date = s_date x, t_time = s_time x,
             t_isBooked = (bk \<noteq> None), t_booking = bk\<rparr>) allSlots"

definition listAllSlotsWithStatus :: "env \<Rightarrow> state \<Rightarrow> response" where
  \<comment> \<open>\<^verbatim>\<open>GET /api/all-slots-status\<close>\<close>
  "listAllSlotsWithStatus e s =
     (if readyState s \<noteq> 1 then json (StatusArray [])
      else case await e (Inr (slot_find_sorted (slots s), bookings s)) of
        Inl error \<Rightarrow> with_status 200 (StatusArray [])
      | Inr (allSlots, bks) \<Rightarrow> json (StatusArray (slotsWithStatus allSlots bks)))"

section \<open>Write routes\<close>

text \<open>
  The four handlers that change a collection are \<^verbatim>\<open>async\<close> functions: each runs from one
  \<^verbatim>\<open>await\<close> to the next without interruption, and other requests may run in between. A
  \<open>task\<close> is such a handler stopped at an \<^verbatim>\<open>await\<close>, with the values it holds; \<open>Done r\<close>
  is a handler that has answered \<open>r\<close>. The part of a handler before its first
  \<^verbatim>\<open>await\<close> is its \<open>_start\<close> function, and \<open>step\<close> runs a task from the query it waits
  for to its next \<^verbatim>\<open>await\<close> or to its answer; a query that raises takes the handler to
  its \<^verbatim>\<open>catch\<close> block. The answer to a created slot carries \<^verbatim>\<open>newSlot.isAvailable\<close>, which
  the handler has set to true two statements before, so \<open>format_slot\<close> gives it.
  \<^verbatim>\<open>new Booking({ slotId, ... })\<close> casts \<^verbatim>\<open>slotId\<close> as the two queries before it have done,
  so the document holds the object id, and the answer its \<^verbatim>\<open>toString()\<close>.
\<close>

record slot_body =
  p_date :: "string option"
  p_time :: "string option"

record booking_body =
  q_slotId :: "string option"
  q_clientName :: "string option"
  q_clientEmail :: "string option"
  q_clientPhone :: "string option"

datatype task =
    Done response
  | CS_findOne slot_body
      \<comment> \<open>\<^verbatim>\<open>POST /api/available-slots\<close> at \<^verbatim>\<open>await AvailableSlot.findOne({ date, time })\<close>\<close>
  | CS_save slot
      \<comment> \<open>... at \<^verbatim>\<open>await newSlot.save()\<close>\<close>
  | DS_findOne string
      \<comment> \<open>\<^verbatim>\<open>DELETE /api/available-slots/:id\<close> at \<^verbatim>\<open>await Booking.findOne({ slotId: id })\<close>\<close>
  | DS_findByIdAndDelete string
      \<comment> \<open>... at \<^verbatim>\<open>await AvailableSlot.findByIdAndDelete(id)\<close>\<close>
  | CB_findById booking_body
      \<comment> \<open>\<^verbatim>\<open>POST /api/bookings\<close> at \<^verbatim>\<open>await AvailableSlot.findById(slotId)\<close>\<close>
  | CB_findOne booking_body slot
      \<comment> \<open>... at \<^verbatim>\<open>await Booking.findOne({ slotId })\<close>, holding \<^verbatim>\<open>slot\<close>\<close>
  | CB_save new_booking
      \<comment> \<open>... at \<^verbatim>\<open>await newBooking.save()\<close>\<close>
  | XB_findByIdAndDelete string
      \<comment> \<open>\<^verbatim>\<open>DELETE /api/bookings/:id\<close> at \<^verbatim>\<open>await Booking.findByIdAndDelete(id)\<close>\<close>

definition createSlot_start :: "state \<Rightarrow> slot_body \<Rightarrow> task" where
  "createSlot_start s p =
     (if readyState s \<noteq> 1 then Done (with_status 503 (Error DbNotConnected_de))
      else if falsy (p_date p) \<or> falsy (p_time p)
        then Done (with_status 400 (Error DateTimeRequired))
      else CS_findOne p)"

definition deleteSlot_start :: "state \<Rightarrow> string \<Rightarrow> task" where
  "deleteSlot_start s i =
     (if readyState s \<noteq> 1 then Done (with_status 503 (Error DbNotConnected_de))
      else DS_findOne i)"

definition createBooking_start :: "state \<Rightarrow> booking_body \<Rightarrow> task" where
  "createBooking_start s q =
     (if readyState s \<noteq> 1 then Done (with_status 503 (Error DbNotConnected_en))
      else if falsy (q_slotId q) \<or> falsy (q_clientName q) \<or> falsy (q_clientEmail q)
        then Done (with_status 400 (Error BookingFieldsRequired))
      else CB_findById q)"

definition cancelBooking_start :: "state \<Rightarrow> string \<Rightarrow> task" where
  "cancelBooking_start s i =
     (if readyState s \<noteq> 1 then Done (with_status 503 (Error DbNotConnected_de))
      else XB_findByIdAndDelete i)"

definition catch_createSlot :: "store_error \<Rightarrow> response" where
  "catch_createSlot error =
     (if code error = Some 11000 then with_status 400 (Error SlotExists_en)
      else with_status 500 (Error (SlotAddFailed (message error))))"

definition catch_deleteSlot :: "store_error \<Rightarrow> response" where
  "catch_deleteSlot error = with_status 500 (Error (SlotDeleteFailed (message error)))"

definition catch_createBooking :: "store_error \<Rightarrow> response" where
  "catch_createBooking error =
     (if code error = Some 11000 then with_status 400 (Error AlreadyBooked_en)
      else with_status 500 (Error (BookingFailed (message error))))"

definition catch_cancelBooking :: "store_error \<Rightarrow> response" where
  "catch_cancelBooking error = with_status 500 (Error (BookingCancelFailed (message error)))"

fun step :: "env \<Rightarrow> task \<Rightarrow> state \<Rightarrow> task \<times> state" where
  "step e (Done r) s = (Done r, s)"
| "step e (CS_findOne p) s =
     (case await e (Inr (slot_findOne (slots s) (or_empty (p_date p)) (or_empty (p_time p)))) of
        Inl error \<Rightarrow> (Done (catch_createSlot error), s)
      | Inr (Some existingSlot) \<Rightarrow> (Done (with_status 400 (Error SlotExists_de)), s)
      | Inr None \<Rightarrow>
          (CS_save \<lparr>s_id = freshId e, s_date = or_empty (p_date p),
                    s_time = or_empty (p_time p), s_isAvailable = Some True\<rparr>, s))"
| "step e (CS_save newSlot) s =
     (case await e (slot_save (slots s) newSlot) of
        Inl error \<Rightarrow> (Done (catch_createSlot error), s)
      | Inr ss \<Rightarrow> (Done (json (SlotObject (format_slot newSlot))), s\<lparr>slots := ss\<rparr>))"
| "step e (DS_findOne i) s =
     (case await e (booking_findOne s i) of
        Inl error \<Rightarrow> (Done (catch_deleteSlot error), s)
      | Inr (Some bk) \<Rightarrow> (Done (with_status 400 (Error SlotHasBooking)), s)
      | Inr None \<Rightarrow> (DS_findByIdAndDelete i, s))"
| "step e (DS_findByIdAndDelete i) s =
     (case await e (slot_findByIdAndDelete s i) of
        Inl error \<Rightarrow> (Done (catch_deleteSlot error), s)
      | Inr (None, ss) \<Rightarrow> (Done (with_status 404 (Error SlotNotFound)), s\<lparr>slots := ss\<rparr>)
      | Inr (Some deletedSlot, ss) \<Rightarrow> (Done (json (Message SlotDeleted)), s\<lparr>slots := ss\<rparr>))"
| "step e (CB_findById q) s =
     (case await e (slot_findById s (or_empty (q_slotId q))) of
        Inl error \<Rightarrow> (Done (catch_createBooking error), s)
      | Inr None \<Rightarrow> (Done (with_status 404 (Error SlotNotFound)), s)
      | Inr (Some x) \<Rightarrow> (CB_findOne q x, s))"
| "step e (CB_findOne q x) s =
     (case await e (booking_findOne s (or_empty (q_slotId q))) of
        Inl error \<Rightarrow> (Done (catch_createBooking error), s)
      | Inr (Some existingBooking) \<Rightarrow> (Done (with_status 400 (Error AlreadyBooked_de)), s)
      | Inr None \<Rightarrow>
          (case castObjectId (bson_string12 s) (or_empty (q_slotId q)) of
             Inl error \<Rightarrow> (Done (catch_createBooking error), s)
           | Inr i \<Rightarrow>
               (CB_save \<lparr>n_id = freshId e, n_slotId = i,
                         n_date = s_date x, n_time = s_time x,
                         n_clientName = or_empty (q_clientName q),
                         n_clientEmail = or_empty (q_clientEmail q),
                         n_clientPhone = or_empty (q_clientPhone q)\<rparr>, s)))"
| "step e (CB_save newBooking) s =
     (case await e (booking_save (bookings s) (timestamps (now e) newBooking)) of
        Inl error \<Rightarrow> (Done (catch_createBooking error), s)
      | Inr bs \<Rightarrow>
          (Done (json (BookingObject (format_booking (timestamps (now e) newBooking)))),
           s\<lparr>bookings := bs\<rparr>))"
| "step e (XB_findByIdAndDelete i) s =
     (case await e (booking_findByIdAndDelete s i) of
        Inl error \<Rightarrow> (Done (catch_cancelBooking error), s)
      | Inr (None, bs) \<Rightarrow> (Done (with_status 404 (Error BookingNotFound)), s\<lparr>bookings := bs\<rparr>)
      | Inr (Some deletedBooking, bs) \<Rightarrow>
          (Done (json (Message BookingCancelled)), s\<lparr>bookings := bs\<rparr>))"

fun awaits :: "task \<Rightarrow> nat" where
  \<comment> \<open>how many \<^verbatim>\<open>await\<close>s a task has before it at most\<close>
  "awaits (Done r) = 0"
| "awaits (CS_findOne p) = 2"
| "awaits (CS_save x) = 1"
| "awaits (DS_findOne i) = 2"
| "awaits (DS_findByIdAndDelete i) = 1"
| "awaits (CB_findById q) = 3"
| "awaits (CB_findOne q x) = 2"
| "awaits (CB_save n) = 1"
| "awaits (XB_findByIdAndDelete i) = 1"

function run :: "env \<Rightarrow> task \<Rightarrow> state \<Rightarrow> response \<times> state" where
  \<comment> \<open>a handler running alone, from where it stands to its answer\<close>
  "run e t s =
     (case t of
        Done r \<Rightarrow> (r, s)
      | _ \<Rightarrow> run e (fst (step e t s)) (snd (step e t s)))"
  by pat_completeness auto
termination
proof (relation "measure (\<lambda>(e, t, s). awaits t)")
  show "wf (measure (\<lambda>(e, t, s). awaits t))"
    by simp
qed (auto split: option.splits sum.splits prod.splits)

declare run.simps [simp del]

definition guarded :: "state \<Rightarrow> string option \<Rightarrow> task \<Rightarrow> task" where
  \<comment> \<open>a route registered as \<^verbatim>\<open>app.post(path, requireAdmin, handler)\<close>\<close>
  "guarded s authHeader t = (case requireAdmin s authHeader of Some r \<Rightarrow> Done r | None \<Rightarrow> t)"

definition createSlot :: "env \<Rightarrow> state \<Rightarrow> string option \<Rightarrow> slot_body \<Rightarrow> response \<times> state" where
  \<comment> \<open>\<^verbatim>\<open>POST /api/available-slots\<close>, with no other request in between\<close>
  "createSlot e s authHeader p = run e (guarded s authHeader (createSlot_start s p)) s"

definition deleteSlot :: "env \<Rightarrow> state \<Rightarrow> string option \<Rightarrow> string \<Rightarrow> response \<times> state" where
  \<comment> \<open>\<^verbatim>\<open>DELETE /api/available-slots/:id\<close>\<close>
  "deleteSlot e s authHeader i = run e (guarded s authHeader (deleteSlot_start s i)) s"

definition createBooking :: "env \<Rightarrow> state \<Rightarrow> booking_body \<Rightarrow> response \<times> state" where
  \<comment> \<open>\<^verbatim>\<open>POST /api/bookings\<close>\<close>
  "createBooking e s q = run e (createBooking_start s q) s"

definition cancelBooking :: "env \<Rightarrow> state \<Rightarrow> string option \<Rightarrow> string \<Rightarrow> response \<times> state" where
  \<comment> \<open>\<^verbatim>\<open>DELETE /api/bookings/:id\<close>\<close>
  "cancelBooking e s authHeader i = run e (guarded s authHeader (cancelBooking_start s i)) s"

section \<open>The server under concurrent requests\<close>

text \<open>
  A configuration is the state together with the handlers that have been started; an event
  is the arrival of a request (its handler runs up to its first \<^verbatim>\<open>await\<close>; login and
  logout have none), the resumption of a waiting handler, or a change of the connection
  state. The routes that only read leave the state as it is and are not events. The
  server starts with no session and no handler, over a Booking collection that respects
  its unique index.
\<close>

datatype request =
    Login "string option"
  | Logout "string option"
  | CreateSlot "string option" slot_body
  | DeleteSlot "string option" string
  | CreateBooking booking_body
  | CancelBooking "string option" string

fun admit :: "env \<Rightarrow> request \<Rightarrow> state \<Rightarrow> task \<times> state" where
  "admit e (Login password) s = (Done (fst (login e s password)), snd (login e s password))"
| "admit e (Logout authHeader) s = (Done (fst (logout s authHeader)), snd (logout s authHeader))"
| "admit e (CreateSlot authHeader p) s = (guarded s authHeader (createSlot_start s p), s)"
| "admit e (DeleteSlot authHeader i) s = (guarded s authHeader (deleteSlot_start s i), s)"
| "admit e (CreateBooking q) s = (createBooking_start s q, s)"
| "admit e (CancelBooking authHeader i) s = (guarded s authHeader (cancelBooking_start s i), s)"

record config =
  c_state :: state
  c_pool :: "task list"

datatype event =
    Arrive env request
  | Resume env nat
  | Connection nat

fun fire :: "event \<Rightarrow> config \<Rightarrow> config" where
  "fire (Arrive e r) c =
     \<lparr>c_state = snd (admit e r (c_state c)),
      c_pool = c_pool c @ [fst (admit e r (c_state c))]\<rparr>"
| "fire (Resume e i) c =
     (if i < length (c_pool c)
      then \<lparr>c_state = snd (step e (c_pool c ! i) (c_state c)),
            c_pool = (c_pool c)[i := fst (step e (c_pool c ! i) (c_state c))]\<rparr>
      else c)"
| "fire (Connection n) c = c\<lparr>c_state := (c_state c)\<lparr>readyState := n\<rparr>\<rparr>"

definition initial :: "config \<Rightarrow> bool" where
  "initial c =
     (c_pool c = [] \<and> adminSessions (c_state c) = {} \<and>
      distinct (map b_slotId (bookings (c_state c))))"

inductive reachable :: "config \<Rightarrow> bool" where
  start: "initial c \<Longrightarrow> reachable c"
| fire: "reachable c \<Longrightarrow> reachable (fire ev c)"

section \<open>Example data\<close>

definition slot_a :: slot where
  "slot_a = \<lparr>s_id = ObjectId ''65a1f0c2e4b0a1b2c3d4e5f1'', s_date = ''2024-06-01'', s_time = ''09:00'',
             s_isAvailable = Some True\<rparr>"

definition slot_b :: slot where
  "slot_b = \<lparr>s_id = ObjectId ''65a1f0c2e4b0a1b2c3d4e5f2'', s_date = ''2024-06-01'', s_time = ''14:30'',
             s_isAvailable = None\<rparr>"

definition slot_c :: slot where
  "slot_c = \<lparr>s_id = ObjectId ''65a1f0c2e4b0a1b2c3d4e5f3'', s_date = ''2024-05-31'', s_time = ''18:00'',
             s_isAvailable = Some True\<rparr>"

definition booking_a :: booking where
  "booking_a = \<lparr>b_id = ObjectId ''65b2a0c2e4b0a1b2c3d4e501'', b_slotId = ObjectId ''65a1f0c2e4b0a1b2c3d4e5f1'',
                b_date = ''2024-06-01'', b_time = ''09:00'', b_clientName = ''Jane Doe'',
                b_clientEmail = ''jane@example.com'', b_clientPhone = [],
                b_createdAt = 1699999990000\<rparr>"

definition ex_env :: env where
  "ex_env = \<lparr>now = 1700000000000, freshId = ObjectId ''65c3b0c2e4b0a1b2c3d4e601'',
             rnd = [4, 15, 35, 34, 24, 8, 2, 22, 31, 34, 27], fault = None\<rparr>"

definition ex_token :: string where
  "ex_token = ''17000000000004fzyo82mv''"

definition ex_state :: state where
  \<comment> \<open>connected; three slots, the first one booked; one admin session\<close>
  "ex_state = \<lparr>readyState = 1, slots = [slot_a, slot_b, slot_c], bookings = [booking_a],
               adminSessions = {ex_token}, env_ADMIN_PASSWORD = None,
               bson_string12 = False\<rparr>"

definition ex_down :: state where
  \<comment> \<open>the same with the connection lost\<close>
  "ex_down = ex_state\<lparr>readyState := 0\<rparr>"

definition body_b :: booking_body where
  \<comment> \<open>a request for the second slot, which is free\<close>
  "body_b = \<lparr>q_slotId = Some ''65a1f0c2e4b0a1b2c3d4e5f2'', q_clientName = Some ''John Roe'',
             q_clientEmail = Some ''john@example.com'', q_clientPhone = None\<rparr>"

definition auth_ex :: "string option" where
  \<comment> \<open>the Authorization header of the logged-in admin\<close>
  "auth_ex = Some (''Bearer '' @ ex_token)"

definition ex_env2 :: env where
  "ex_env2 = \<lparr>now = 1700000000250, freshId = ObjectId ''65c3b0c2e4b0a1b2c3d4e602'', rnd = [7, 0, 12],
              fault = None\<rparr>"

definition slot_body_d :: slot_body where
  "slot_body_d = \<lparr>p_date = Some ''2024-06-02'', p_time = Some ''10:00''\<rparr>"

definition slot_d2 :: slot where
  \<comment> \<open>the slot that the second of two racing requests constructs\<close>
  "slot_d2 = \<lparr>s_id = ObjectId ''65c3b0c2e4b0a1b2c3d4e602'', s_date = ''2024-06-02'', s_time = ''10:00'',
              s_isAvailable = Some True\<rparr>"

definition c_ex :: config where
  "c_ex = \<lparr>c_state = ex_state, c_pool = []\<rparr>"

definition race_slot :: "event list" where
  \<comment> \<open>two requests for the same new slot: both pass the check for an existing slot, then
      the first one saves\<close>
  "race_slot = [Arrive ex_env (CreateSlot auth_ex slot_body_d),
                Arrive ex_env2 (CreateSlot auth_ex slot_body_d),
                Resume ex_env 0, Resume ex_env2 1, Resume ex_env 0]"

definition c_init :: config where
  \<comment> \<open>the server as it starts over the example collections\<close>
  "c_init = \<lparr>c_state = ex_state\<lparr>adminSessions := {}\<rparr>, c_pool = []\<rparr>"

definition body_b2 :: booking_body where
  \<comment> \<open>another client's request for the same slot as \<open>body_b\<close>\<close>
  "body_b2 = \<lparr>q_slotId = Some ''65a1f0c2e4b0a1b2c3d4e5f2'', q_clientName = Some ''Ann Poe'',
              q_clientEmail = Some ''ann@example.com'', q_clientPhone = Some ''0456''\<rparr>"

definition new_booking_b2 :: new_booking where
  \<comment> \<open>the document that the handler of \<open>body_b2\<close> constructs\<close>
  "new_booking_b2 = \<lparr>n_id = ObjectId ''65c3b0c2e4b0a1b2c3d4e602'', n_slotId = ObjectId ''65a1f0c2e4b0a1b2c3d4e5f2'',
                     n_date = ''2024-06-01'', n_time = ''14:30'', n_clientName = ''Ann Poe'',
                     n_clientEmail = ''ann@example.com'', n_clientPhone = ''0456''\<rparr>"

definition booking_b :: booking where
  \<comment> \<open>the booking that the handler of \<open>body_b\<close> saves\<close>
  "booking_b = \<lparr>b_id = ObjectId ''65c3b0c2e4b0a1b2c3d4e601'', b_slotId = ObjectId ''65a1f0c2e4b0a1b2c3d4e5f2'',
                b_date = ''2024-06-01'', b_time = ''14:30'', b_clientName = ''John Roe'',
                b_clientEmail = ''john@example.com'', b_clientPhone = [],
                b_createdAt = 1700000000000\<rparr>"

definition race_booking :: "event list" where
  \<comment> \<open>the admin logs in; then two requests for the same free slot arrive, both find the
      slot, both find no booking, and the first one saves\<close>
  "race_booking = [Arrive ex_env (Login (Some ''admin123'')),
                   Arrive ex_env (CreateBooking body_b),
                   Arrive ex_env2 (CreateBooking body_b2),
                   Resume ex_env 1, Resume ex_env2 2, Resume ex_env 1, Resume ex_env2 2,
                   Resume ex_env 1]"

definition minted :: "string \<Rightarrow> bool" where
  \<comment> \<open>the shape of every token that login mints: not empty, digits and small letters only\<close>
  "minted t = (t \<noteq> [] \<and> set t \<subseteq> set alphabet36)"

definition booking_a2 :: booking where
  \<comment> \<open>a booking with the date and time of \<open>booking_a\<close>\<close>
  "booking_a2 = \<lparr>b_id = ObjectId ''65b2a0c2e4b0a1b2c3d4e502'', b_slotId = ObjectId ''65a1f0c2e4b0a1b2c3d4e5f9'',
                 b_date = ''2024-06-01'', b_time = ''09:00'', b_clientName = ''Max Moe'',
                 b_clientEmail = ''max@example.com'', b_clientPhone = ''0123'',
                 b_createdAt = 1699999995000\<rparr>"

definition booking_c :: booking where
  "booking_c = \<lparr>b_id = ObjectId ''65b2a0c2e4b0a1b2c3d4e503'', b_slotId = ObjectId ''65a1f0c2e4b0a1b2c3d4e5f3'',
                b_date = ''2024-05-31'', b_time = ''18:00'', b_clientName = ''Eve Low'',
                b_clientEmail = ''eve@example.com'', b_clientPhone = [],
                b_createdAt = 1699999999000\<rparr>"

definition ex_busy :: state where
  "ex_busy = ex_state\<lparr>bookings := [booking_a, booking_a2, booking_c]\<rparr>"


section \<open>Basic facts\<close>

lemma run_Done [simp]: "run e (Done r) s = (r, s)"
  by (simp add: run.simps)

lemma run_step: "awaits t \<noteq> 0 \<Longrightarrow> run e t s = run e (fst (step e t s)) (snd (step e t s))"
  by (subst run.simps) (cases t; simp)

lemma await_ok [simp]: "fault e = None \<Longrightarrow> await e r = r"
  by (simp add: await_def)

lemma await_fault [simp]: "fault e = Some error \<Longrightarrow> await e r = Inl error"
  by (simp add: await_def)

lemma toString10_small: "n < 10 \<Longrightarrow> toString10 n = [digit10 n]"
  by (simp add: toString10.simps)

lemma toString10_large: "10 \<le> n \<Longrightarrow> toString10 n = toString10 (n div 10) @ [digit10 n]"
  by (subst toString10.simps) simp

lemmas eval_token = toString10_small toString10_large digit10_def digit36_def alphabet36_def
  mintToken_def substr_def toString36_def

lemma ex_token_minted: "mintToken ex_env = ex_token"
  by (simp add: eval_token ex_env_def ex_token_def)

lemma ADMIN_PASSWORD_truthy: "\<not> falsy (Some (ADMIN_PASSWORD s))"
  by (auto simp: falsy_def ADMIN_PASSWORD_def or_empty_def split: option.splits)

lemma ADMIN_PASSWORD_ex [simp]: "ADMIN_PASSWORD ex_state = ''admin123''"
  by (simp add: ADMIN_PASSWORD_def ex_state_def falsy_def)

lemma substr_toString36: "substr (toString36 ds) 2 9 = map digit36 (take 9 ds)"
  by (simp add: substr_def toString36_def take_map)

lemma run_unfold:
  "run e (CS_findOne p) s = run e (fst (step e (CS_findOne p) s)) (snd (step e (CS_findOne p) s))"
  "run e (CS_save x) s = run e (fst (step e (CS_save x) s)) (snd (step e (CS_save x) s))"
  "run e (DS_findOne v) s = run e (fst (step e (DS_findOne v) s)) (snd (step e (DS_findOne v) s))"
  "run e (DS_findByIdAndDelete v) s =
     run e (fst (step e (DS_findByIdAndDelete v) s)) (snd (step e (DS_findByIdAndDelete v) s))"
  "run e (CB_findById q) s = run e (fst (step e (CB_findById q) s)) (snd (step e (CB_findById q) s))"
  "run e (CB_findOne q y) s =
     run e (fst (step e (CB_findOne q y) s)) (snd (step e (CB_findOne q y) s))"
  "run e (CB_save n) s = run e (fst (step e (CB_save n) s)) (snd (step e (CB_save n) s))"
  "run e (XB_findByIdAndDelete v) s =
     run e (fst (step e (XB_findByIdAndDelete v) s)) (snd (step e (XB_findByIdAndDelete v) s))"
  by (simp_all add: run_step)

lemma find_None_set: "find P xs = None \<longleftrightarrow> (\<forall>x\<in>set xs. \<not> P x)"
  by (auto simp: find_None_iff)

lemma find_Some_ex: "\<exists>x\<in>set xs. P x \<Longrightarrow> \<exists>y. find P xs = Some y"
  by (cases "find P xs") (auto simp: find_None_set)



lemma booking_save_dup:
  "\<exists>b\<in>set bs. b_slotId b = b_slotId x \<Longrightarrow> booking_save bs x = Inl duplicate_key"
  by (auto simp: booking_save_def list_ex_iff)

lemma slot_save_fresh:
  "\<forall>y\<in>set ss. \<not> (s_date y = s_date x \<and> s_time y = s_time x) \<Longrightarrow> slot_save ss x = Inr (ss @ [x])"
  by (auto simp: slot_save_def list_ex_iff)

lemma slot_save_dup:
  "\<exists>y\<in>set ss. s_date y = s_date x \<and> s_time y = s_time x \<Longrightarrow> slot_save ss x = Inl duplicate_key"
  by (auto simp: slot_save_def list_ex_iff)

lemma code_duplicate_key [simp]: "code duplicate_key = Some 11000"
  by (simp add: duplicate_key_def)

lemma slot_findOne_None:
  "\<forall>x\<in>set ss. \<not> (s_date x = d \<and> s_time x = t) \<Longrightarrow> slot_findOne ss d t = None"
  by (simp add: slot_findOne_def find_None_set)

lemma slot_findOne_Some:
  "\<exists>x\<in>set ss. s_date x = d \<and> s_time x = t \<Longrightarrow> \<exists>y. slot_findOne ss d t = Some y"
  by (cases "slot_findOne ss d t") (auto simp: slot_findOne_def find_None_set)

subsection \<open>Object ids and their cast\<close>

lemma isObjectIdString_toString: "isObjectIdString (toString i)"
  using toString [of i] by simp

lemma toString_ObjectId: "isObjectIdString v \<Longrightarrow> toString (ObjectId v) = v"
  by (simp add: ObjectId_inverse)

lemma ObjectId_eq_iff:
  "isObjectIdString v \<Longrightarrow> isObjectIdString w \<Longrightarrow> ObjectId v = ObjectId w \<longleftrightarrow> v = w"
  by (simp add: ObjectId_inject)

lemma lowerHex_hexdigits: "\<forall>c\<in>set hexdigits. lowerHex c = c"
  by (simp add: hexdigits_def lowerHex_def)

lemma lowerHex_hexdigit: "c \<in> set hexdigits \<Longrightarrow> lowerHex c = c"
  using lowerHex_hexdigits by blast

lemma hexdigits_subset: "set hexdigits \<subseteq> set ''0123456789abcdefABCDEF''"
  by (simp add: hexdigits_def)

lemma isObjectIdString_isHex24: "isObjectIdString v \<Longrightarrow> isHex24 v"
  using hexdigits_subset unfolding isObjectIdString_def isHex24_def by blast

lemma castObjectId_canonical: "isObjectIdString v \<Longrightarrow> castObjectId b v = Inr (ObjectId v)"
proof -
  assume v: "isObjectIdString v"
  then have "set v \<subseteq> set hexdigits"
    unfolding isObjectIdString_def by blast
  then have "map lowerHex v = v"
    by (intro map_idI lowerHex_hexdigit) blast
  with v show ?thesis
    by (simp add: castObjectId_def isObjectIdString_isHex24)
qed

lemma castObjectId_toString: "castObjectId b (toString i) = Inr i"
  by (simp add: castObjectId_canonical isObjectIdString_toString toString_inverse)



lemma ex_ids:
  "isObjectIdString ''65a1f0c2e4b0a1b2c3d4e5f1''"
  "isObjectIdString ''65a1f0c2e4b0a1b2c3d4e5f2''"
  "isObjectIdString ''65a1f0c2e4b0a1b2c3d4e5f3''"
  "isObjectIdString ''65a1f0c2e4b0a1b2c3d4e5f9''"
  "isObjectIdString ''65a1f0c2e4b0a1b2c3d4e500''"
  "isObjectIdString ''65b2a0c2e4b0a1b2c3d4e501''"
  "isObjectIdString ''65b2a0c2e4b0a1b2c3d4e502''"
  "isObjectIdString ''65b2a0c2e4b0a1b2c3d4e503''"
  "isObjectIdString ''65c3b0c2e4b0a1b2c3d4e601''"
  "isObjectIdString ''65c3b0c2e4b0a1b2c3d4e602''"
  by (simp_all add: isObjectIdString_def hexdigits_def)

lemma cast_upper_case:
  "castObjectId b ''65A1F0C2E4B0A1B2C3D4E5F2'' = Inr (ObjectId ''65a1f0c2e4b0a1b2c3d4e5f2'')"
  by (simp add: castObjectId_def isHex24_def lowerHex_def)

lemma cast_abc: "castObjectId b ''abc'' = Inl (CastError ''abc'')"
  by (simp add: castObjectId_def isHex24_def)

lemmas eval_ids = ex_ids ObjectId_eq_iff toString_ObjectId castObjectId_canonical cast_upper_case
  cast_abc

subsection \<open>Queries by id\<close>

lemma slot_findById_cast:
  "castObjectId (bson_string12 s) v = Inr i \<Longrightarrow>
   slot_findById s v = Inr (find (\<lambda>x. s_id x = i) (slots s))"
  by (simp add: slot_findById_def)


lemma booking_findOne_cast:
  "castObjectId (bson_string12 s) v = Inr i \<Longrightarrow>
   booking_findOne s v = Inr (find (\<lambda>x. b_slotId x = i) (bookings s))"
  by (simp add: booking_findOne_def)



lemma slot_findByIdAndDelete_error:
  "castObjectId (bson_string12 s) v = Inl error \<Longrightarrow> slot_findByIdAndDelete s v = Inl error"
  by (simp add: slot_findByIdAndDelete_def)

lemma booking_findByIdAndDelete_cast:
  "castObjectId (bson_string12 s) v = Inr i \<Longrightarrow>
   booking_findByIdAndDelete s v
     = Inr (find (\<lambda>x. b_id x = i) (bookings s), delete_first (\<lambda>x. b_id x = i) (bookings s))"
  by (simp add: booking_findByIdAndDelete_def)

lemma booking_findByIdAndDelete_error:
  "castObjectId (bson_string12 s) v = Inl error \<Longrightarrow> booking_findByIdAndDelete s v = Inl error"
  by (simp add: booking_findByIdAndDelete_def)


subsection \<open>Creating a booking, step by step\<close>

lemma createBooking_down:
  "readyState s \<noteq> 1 \<Longrightarrow> createBooking e s q = (with_status 503 (Error DbNotConnected_en), s)"
  by (simp add: createBooking_def createBooking_start_def)


lemma createBooking_valid:
  "readyState s = 1 \<Longrightarrow> \<not> falsy (q_slotId q) \<Longrightarrow> \<not> falsy (q_clientName q) \<Longrightarrow>
   \<not> falsy (q_clientEmail q) \<Longrightarrow> createBooking e s q = run e (CB_findById q) s"
  by (simp add: createBooking_def createBooking_start_def)



lemma run_CB_conflict:
  assumes "fault e = None"
    and "castObjectId (bson_string12 s) (or_empty (q_slotId q)) = Inr i"
    and "find (\<lambda>x. s_id x = i) (slots s) = Some x"
    and "\<exists>b\<in>set (bookings s). b_slotId b = i"
  shows "run e (CB_findById q) s = (with_status 400 (Error AlreadyBooked_de), s)"
proof -
  obtain y where "find (\<lambda>b. b_slotId b = i) (bookings s) = Some y"
    using find_Some_ex [OF assms(4)] by blast
  with assms(1-3) show ?thesis
    by (simp add: run_unfold slot_findById_cast booking_findOne_cast)
qed


section \<open>Login\<close>

text \<open>
  Claim C6, as the code has it. The claim says that a login with missing or bad credentials
  answers 401. The handler tests \<^verbatim>\<open>!password\<close> first and answers 400 ('Passwort ist
  erforderlich') for a missing or empty password; only a password that is present and
  differs from the secret is answered with 401. The first theorem shows the 400 on a login
  without password.
\<close>

theorem login_missing_password_counterexample:
  "status (fst (login ex_env ex_state None)) = 400 \<and>
   status (fst (login ex_env ex_state None)) \<noteq> 401"
  by (simp add: login_def falsy_def with_status_def)

text \<open>
  Claim C6, amended: a login with a missing or empty password answers 400 and a login with
  a non-empty password different from the configured secret answers 401, and in both cases
  the set of sessions is left as it was; a login with the configured secret mints a token,
  answers \<^verbatim>\<open>{success: true, token}\<close> with status 200, and the set of sessions afterwards is
  the set before with that token added.
\<close>

theorem login_outcomes:
  "(falsy password \<longrightarrow>
      login e s password = (with_status 400 (Error PasswordRequired), s)) \<and>
   (\<not> falsy password \<and> password \<noteq> Some (ADMIN_PASSWORD s) \<longrightarrow>
      login e s password = (with_status 401 (Error InvalidPassword), s)) \<and>
   (password = Some (ADMIN_PASSWORD s) \<longrightarrow>
      fst (login e s password) = \<lparr>status = 200, body = LoginSuccess (mintToken e)\<rparr> \<and>
      adminSessions (snd (login e s password)) = insert (mintToken e) (adminSessions s))"
  using ADMIN_PASSWORD_truthy [of s] by (auto simp: login_def Let_def json_def)

theorem login_outcomes_witness:
  "falsy (Some []) \<and>
   login ex_env ex_state (Some []) = (\<lparr>status = 400, body = Error PasswordRequired\<rparr>, ex_state) \<and>
   \<not> falsy (Some ''letmein'') \<and> Some ''letmein'' \<noteq> Some (ADMIN_PASSWORD ex_state) \<and>
   login ex_env ex_state (Some ''letmein'')
     = (\<lparr>status = 401, body = Error InvalidPassword\<rparr>, ex_state) \<and>
   Some ''admin123'' = Some (ADMIN_PASSWORD ex_state) \<and>
   fst (login ex_env ex_down (Some ''admin123''))
     = \<lparr>status = 200, body = LoginSuccess ex_token\<rparr> \<and>
   adminSessions (snd (login ex_env (ex_down\<lparr>adminSessions := {}\<rparr>) (Some ''admin123'')))
     = {ex_token}"
  using login_outcomes [of "Some []" ex_env ex_state]
    login_outcomes [of "Some ''letmein''" ex_env ex_state]
    login_outcomes [of "Some ''admin123''" ex_env ex_down]
    login_outcomes [of "Some ''admin123''" ex_env "ex_down\<lparr>adminSessions := {}\<rparr>"]
  by (simp add: falsy_def with_status_def ex_token_minted ADMIN_PASSWORD_def ex_down_def
      ex_state_def)

section \<open>The session token\<close>

text \<open>
  Claim C7, as the code has it. The claim says that the token is not a timestamp
  concatenation. The handler builds it as
  \<^verbatim>\<open>Date.now().toString() + Math.random().toString(36).substr(2, 9)\<close>: at the clock value
  1700000000000 the token is the text of that number followed by nine base-36 digits.
\<close>

theorem login_token_counterexample:
  "body (fst (login ex_env ex_state (Some ''admin123'')))
     = LoginSuccess (toString10 1700000000000 @ ''4fzyo82mv'') \<and>
   toString10 1700000000000 = ''1700000000000'' \<and> now ex_env = 1700000000000"
  by (simp add: login_def falsy_def json_def Let_def eval_token ex_env_def)

text \<open>
  Claim C7, amended: the token minted by a successful login is the decimal text of the
  clock value in milliseconds followed by the first nine (or fewer, if there are fewer)
  base-36 digits of the fraction of \<^verbatim>\<open>Math.random()\<close>; it is a timestamp concatenation,
  fixed by the clock and those digits alone, whatever the sessions registered before.
  Nothing is claimed about the unpredictability of \<^verbatim>\<open>Math.random()\<close>.
\<close>

theorem login_token_shape:
  "password = Some (ADMIN_PASSWORD s) \<Longrightarrow>
   body (fst (login e s password))
     = LoginSuccess (toString10 (now e) @ map digit36 (take 9 (rnd e)))"
  using ADMIN_PASSWORD_truthy [of s]
  by (simp add: login_def Let_def json_def mintToken_def substr_toString36)

theorem login_token_shape_witness:
  "Some ''admin123'' = Some (ADMIN_PASSWORD ex_state) \<and>
   body (fst (login ex_env ex_state (Some ''admin123''))) = LoginSuccess ''17000000000004fzyo82mv''"
  using login_token_shape [of "Some ''admin123''" ex_state ex_env]
  by (simp add: eval_token ex_env_def)

section \<open>Creating a booking\<close>

lemmas eval_ex = ex_state_def slot_a_def slot_b_def slot_c_def booking_a_def ex_env_def
  body_b_def falsy_def or_empty_def eval_ids




section \<open>Deleting a slot\<close>

lemma guarded_pass: "requireAdmin s a = None \<Longrightarrow> guarded s a t = t"
  by (simp add: guarded_def)


lemma requireAdmin_auth_ex: "requireAdmin ex_state auth_ex = None"
  by (simp add: requireAdmin_def falsy_def or_empty_def startsWith_def ex_state_def ex_token_def
      auth_ex_def)







lemma deleteSlot_down:
  "requireAdmin s a = None \<Longrightarrow> readyState s \<noteq> 1 \<Longrightarrow>
   deleteSlot e s a v = (with_status 503 (Error DbNotConnected_de), s)"
  by (simp add: deleteSlot_def guarded_pass deleteSlot_start_def)








section \<open>Creating a slot\<close>

lemma createSlot_pass:
  "requireAdmin s a = None \<Longrightarrow> readyState s = 1 \<Longrightarrow> \<not> falsy (p_date p) \<Longrightarrow> \<not> falsy (p_time p) \<Longrightarrow>
   createSlot e s a p = run e (CS_findOne p) s"
  by (simp add: createSlot_def guarded_pass createSlot_start_def)

lemma createSlot_invalid:
  "requireAdmin s a = None \<Longrightarrow> readyState s = 1 \<Longrightarrow> falsy (p_date p) \<or> falsy (p_time p) \<Longrightarrow>
   createSlot e s a p = (with_status 400 (Error DateTimeRequired), s)"
  by (auto simp add: createSlot_def guarded_pass createSlot_start_def)

lemma createSlot_down:
  "requireAdmin s a = None \<Longrightarrow> readyState s \<noteq> 1 \<Longrightarrow>
   createSlot e s a p = (with_status 503 (Error DbNotConnected_de), s)"
  by (simp add: createSlot_def guarded_pass createSlot_start_def)

lemma run_CS_conflict:
  assumes "\<exists>x\<in>set (slots s). s_date x = or_empty (p_date p) \<and> s_time x = or_empty (p_time p)"
    and "fault e = None"
  shows "run e (CS_findOne p) s = (with_status 400 (Error SlotExists_de), s)"
proof -
  obtain y where "slot_findOne (slots s) (or_empty (p_date p)) (or_empty (p_time p)) = Some y"
    using slot_findOne_Some [OF assms(1)] by blast
  with assms(2) show ?thesis
    by (simp add: run_unfold)
qed

lemma run_CS_insert:
  "fault e = None \<Longrightarrow>
   \<forall>x\<in>set (slots s). \<not> (s_date x = or_empty (p_date p) \<and> s_time x = or_empty (p_time p)) \<Longrightarrow>
   run e (CS_findOne p) s =
     (json (SlotObject \<lparr>j_id = freshId e, j_date = or_empty (p_date p),
        j_time = or_empty (p_time p), j_isAvailable = True\<rparr>),
      s\<lparr>slots := slots s @ [\<lparr>s_id = freshId e, s_date = or_empty (p_date p),
        s_time = or_empty (p_time p), s_isAvailable = Some True\<rparr>]\<rparr>)"
  by (simp add: run_unfold slot_findOne_None slot_save_fresh format_slot_def
      isAvailable_or_true_def)

lemma step_CS_save_dup:
  "fault e = None \<Longrightarrow> \<exists>y\<in>set (slots s). s_date y = s_date x \<and> s_time y = s_time x \<Longrightarrow>
   step e (CS_save x) s = (Done (with_status 400 (Error SlotExists_en)), s)"
  by (simp add: slot_save_dup catch_createSlot_def)

lemma step_CB_save_dup:
  "fault e = None \<Longrightarrow> \<exists>b\<in>set (bookings s). b_slotId b = n_slotId n \<Longrightarrow>
   step e (CB_save n) s = (Done (with_status 400 (Error AlreadyBooked_en)), s)"
  by (simp add: booking_save_dup timestamps_def catch_createBooking_def)

lemmas eval_race = eval_ex c_ex_def auth_ex_def ex_env2_def slot_body_d_def slot_d2_def
  race_slot_def race_booking_def body_b2_def new_booking_b2_def booking_b_def c_init_def
  login_def Let_def ADMIN_PASSWORD_def requireAdmin_def guarded_def createSlot_start_def
  createBooking_start_def startsWith_def ex_token_def slot_findOne_def slot_save_def
  slot_findById_def booking_findOne_def booking_save_def timestamps_def format_slot_def format_booking_def
  isAvailable_or_true_def json_def with_status_def duplicate_key_def

text \<open>
  Claim C8: past the admin gate and over a connected store, \<^verbatim>\<open>POST /api/available-slots\<close>
  answers 400 (invalid input) when date or time is missing or empty; otherwise, the store
  answering its queries, 400 (conflict) when a slot with that date and time exists;
  otherwise it appends the slot and answers 200 with it, \<^verbatim>\<open>isAvailable\<close> true. And a
  handler that has passed the check and
  reaches \<^verbatim>\<open>save()\<close> when a slot with its date and time has appeared meanwhile gets the
  duplicate-key error of the unique index and answers 400 (conflict) as well, leaving the
  state as it is.
\<close>

theorem createSlot_outcomes:
  "(requireAdmin s a = None \<and> readyState s = 1 \<longrightarrow>
      (falsy (p_date p) \<or> falsy (p_time p) \<longrightarrow>
         createSlot e s a p = (\<lparr>status = 400, body = Error DateTimeRequired\<rparr>, s)) \<and>
      (\<not> falsy (p_date p) \<and> \<not> falsy (p_time p) \<and> fault e = None \<longrightarrow>
         ((\<exists>x\<in>set (slots s). s_date x = or_empty (p_date p) \<and> s_time x = or_empty (p_time p)) \<longrightarrow>
            createSlot e s a p = (\<lparr>status = 400, body = Error SlotExists_de\<rparr>, s)) \<and>
         ((\<forall>x\<in>set (slots s). \<not> (s_date x = or_empty (p_date p) \<and> s_time x = or_empty (p_time p))) \<longrightarrow>
            createSlot e s a p =
              (\<lparr>status = 200, body = SlotObject
                 \<lparr>j_id = freshId e, j_date = or_empty (p_date p),
                  j_time = or_empty (p_time p), j_isAvailable = True\<rparr>\<rparr>,
               s\<lparr>slots := slots s @
                 [\<lparr>s_id = freshId e, s_date = or_empty (p_date p),
                   s_time = or_empty (p_time p), s_isAvailable = Some True\<rparr>]\<rparr>)))) \<and>
   (fault e' = None \<and> (\<exists>y\<in>set (slots s'). s_date y = s_date x \<and> s_time y = s_time x) \<longrightarrow>
      step e' (CS_save x) s' = (Done \<lparr>status = 400, body = Error SlotExists_en\<rparr>, s'))"
proof (intro conjI impI; (elim conjE)?)
  assume "requireAdmin s a = None" "readyState s = 1" "falsy (p_date p) \<or> falsy (p_time p)"
  then show "createSlot e s a p = (\<lparr>status = 400, body = Error DateTimeRequired\<rparr>, s)"
    by (simp add: createSlot_invalid with_status_def)
next
  assume "requireAdmin s a = None" "readyState s = 1" "\<not> falsy (p_date p)" "\<not> falsy (p_time p)"
    "fault e = None"
    "\<exists>x\<in>set (slots s). s_date x = or_empty (p_date p) \<and> s_time x = or_empty (p_time p)"
  then show "createSlot e s a p = (\<lparr>status = 400, body = Error SlotExists_de\<rparr>, s)"
    by (simp add: createSlot_pass run_CS_conflict with_status_def)
next
  assume "requireAdmin s a = None" "readyState s = 1" "\<not> falsy (p_date p)" "\<not> falsy (p_time p)"
    "fault e = None"
    "\<forall>x\<in>set (slots s). \<not> (s_date x = or_empty (p_date p) \<and> s_time x = or_empty (p_time p))"
  then show "createSlot e s a p =
      (\<lparr>status = 200, body = SlotObject
         \<lparr>j_id = freshId e, j_date = or_empty (p_date p),
          j_time = or_empty (p_time p), j_isAvailable = True\<rparr>\<rparr>,
       s\<lparr>slots := slots s @
         [\<lparr>s_id = freshId e, s_date = or_empty (p_date p),
           s_time = or_empty (p_time p), s_isAvailable = Some True\<rparr>]\<rparr>)"
    by (simp add: createSlot_pass run_CS_insert json_def)
next
  assume "fault e' = None" "\<exists>y\<in>set (slots s'). s_date y = s_date x \<and> s_time y = s_time x"
  then have "step e' (CS_save x) s' = (Done (with_status 400 (Error SlotExists_en)), s')"
    by (rule step_CS_save_dup)
  then show "step e' (CS_save x) s' = (Done \<lparr>status = 400, body = Error SlotExists_en\<rparr>, s')"
    by (simp only: with_status_def)
qed


theorem createSlot_outcomes_witness:
  "requireAdmin ex_state auth_ex = None \<and> readyState ex_state = 1 \<and>
   fault ex_env = None \<and> fault ex_env2 = None \<and>
   createSlot ex_env ex_state auth_ex (slot_body_d\<lparr>p_time := None\<rparr>)
     = (\<lparr>status = 400, body = Error DateTimeRequired\<rparr>, ex_state) \<and>
   createSlot ex_env ex_state auth_ex \<lparr>p_date = Some ''2024-06-01'', p_time = Some ''14:30''\<rparr>
     = (\<lparr>status = 400, body = Error SlotExists_de\<rparr>, ex_state) \<and>
   createSlot ex_env ex_state auth_ex slot_body_d
     = (\<lparr>status = 200, body = SlotObject
          \<lparr>j_id = ObjectId ''65c3b0c2e4b0a1b2c3d4e601'', j_date = ''2024-06-02'', j_time = ''10:00'',
           j_isAvailable = True\<rparr>\<rparr>,
        ex_state\<lparr>slots := [slot_a, slot_b, slot_c,
          \<lparr>s_id = ObjectId ''65c3b0c2e4b0a1b2c3d4e601'', s_date = ''2024-06-02'', s_time = ''10:00'',
           s_isAvailable = Some True\<rparr>]\<rparr>) \<and>
   c_pool (fold fire race_slot c_ex) ! 1 = CS_save slot_d2 \<and>
   step ex_env2 (CS_save slot_d2) (c_state (fold fire race_slot c_ex))
     = (Done \<lparr>status = 400, body = Error SlotExists_en\<rparr>, c_state (fold fire race_slot c_ex))"
proof -
  have race: "c_pool (fold fire race_slot c_ex) ! 1 = CS_save slot_d2"
    by (simp add: eval_race)
  have dup: "\<exists>y\<in>set (slots (c_state (fold fire race_slot c_ex))).
      s_date y = s_date slot_d2 \<and> s_time y = s_time slot_d2"
    by (simp add: eval_race)
  have seq: "createSlot ex_env ex_state auth_ex (slot_body_d\<lparr>p_time := None\<rparr>)
       = (\<lparr>status = 400, body = Error DateTimeRequired\<rparr>, ex_state) \<and>
     createSlot ex_env ex_state auth_ex \<lparr>p_date = Some ''2024-06-01'', p_time = Some ''14:30''\<rparr>
       = (\<lparr>status = 400, body = Error SlotExists_de\<rparr>, ex_state) \<and>
     createSlot ex_env ex_state auth_ex slot_body_d
       = (\<lparr>status = 200, body = SlotObject
            \<lparr>j_id = ObjectId ''65c3b0c2e4b0a1b2c3d4e601'', j_date = ''2024-06-02'', j_time = ''10:00'',
             j_isAvailable = True\<rparr>\<rparr>,
          ex_state\<lparr>slots := [slot_a, slot_b, slot_c,
            \<lparr>s_id = ObjectId ''65c3b0c2e4b0a1b2c3d4e601'', s_date = ''2024-06-02'', s_time = ''10:00'',
             s_isAvailable = Some True\<rparr>]\<rparr>)"
    using requireAdmin_auth_ex
      createSlot_outcomes [of ex_state auth_ex "slot_body_d\<lparr>p_time := None\<rparr>" ex_env]
      createSlot_outcomes [of ex_state auth_ex
        "\<lparr>p_date = Some ''2024-06-01'', p_time = Some ''14:30''\<rparr>" ex_env]
      createSlot_outcomes [of ex_state auth_ex slot_body_d ex_env]
    by (simp add: eval_ex slot_body_d_def)
  have f2: "fault ex_env2 = None"
    by (simp add: ex_env2_def)
  show ?thesis
    using race seq requireAdmin_auth_ex f2
      createSlot_outcomes [of ex_state auth_ex slot_body_d ex_env ex_env2
        "c_state (fold fire race_slot c_ex)" slot_d2, THEN conjunct2, rule_format,
        OF conjI [OF f2 dup]]
    by (simp add: ex_state_def ex_env_def)
qed

section \<open>The store out of reach\<close>


lemma cancelBooking_down:
  "requireAdmin s a = None \<Longrightarrow> readyState s \<noteq> 1 \<Longrightarrow>
   cancelBooking e s a i = (with_status 503 (Error DbNotConnected_de), s)"
  by (simp add: cancelBooking_def guarded_pass cancelBooking_start_def)

text \<open>
  A query that fails over a store that \<^verbatim>\<open>readyState\<close> reports as connected is another
  matter: it ends in the \<^verbatim>\<open>catch\<close> block of its handler. The three public listings answer
  an empty array there; the listing of bookings and the deletions answer 500.
\<close>

lemma query_failure_answers:
  assumes "readyState s = 1" and "fault e = Some error" and "requireAdmin s a = None"
  shows "listAllSlots e s = \<lparr>status = 200, body = SlotArray []\<rparr> \<and>
     listBookableSlots e s = \<lparr>status = 200, body = SlotArray []\<rparr> \<and>
     listAllSlotsWithStatus e s = \<lparr>status = 200, body = StatusArray []\<rparr> \<and>
     listBookings e s a = \<lparr>status = 500, body = Error BookingsFetchFailed\<rparr> \<and>
     deleteSlot e s a i
       = (\<lparr>status = 500, body = Error (SlotDeleteFailed (message error))\<rparr>, s) \<and>
     cancelBooking e s a i
       = (\<lparr>status = 500, body = Error (BookingCancelFailed (message error))\<rparr>, s)"
  using assms
  by (simp add: listAllSlots_def listBookableSlots_def listAllSlotsWithStatus_def
      listBookings_def deleteSlot_def cancelBooking_def deleteSlot_start_def
      cancelBooking_start_def guarded_def run_unfold catch_deleteSlot_def
      catch_cancelBooking_def json_def with_status_def)

lemma requireAdmin_down: "requireAdmin ex_down auth_ex = None"
  by (simp add: requireAdmin_def falsy_def or_empty_def startsWith_def ex_state_def ex_token_def
      ex_down_def auth_ex_def)

text \<open>
  Claim C4: when the store is out of reach, that is when
  \<^verbatim>\<open>mongoose.connection.readyState\<close> is not 1, the four reading routes answer 200 with an
  empty array and the four writing routes answer 503 and leave the state as it is; for the
  routes behind \<^verbatim>\<open>requireAdmin\<close> this is the answer to a request that passes the gate.
\<close>

theorem store_unreachable:
  assumes "readyState s \<noteq> 1"
  shows
    "listAllSlots e s = \<lparr>status = 200, body = SlotArray []\<rparr> \<and>
     listBookableSlots e s = \<lparr>status = 200, body = SlotArray []\<rparr> \<and>
     listAllSlotsWithStatus e s = \<lparr>status = 200, body = StatusArray []\<rparr> \<and>
     (requireAdmin s a = None \<longrightarrow>
        listBookings e s a = \<lparr>status = 200, body = BookingArray []\<rparr>) \<and>
     (requireAdmin s a = None \<longrightarrow>
        createSlot e s a p = (\<lparr>status = 503, body = Error DbNotConnected_de\<rparr>, s)) \<and>
     (requireAdmin s a = None \<longrightarrow>
        deleteSlot e s a i = (\<lparr>status = 503, body = Error DbNotConnected_de\<rparr>, s)) \<and>
     createBooking e s q = (\<lparr>status = 503, body = Error DbNotConnected_en\<rparr>, s) \<and>
     (requireAdmin s a = None \<longrightarrow>
        cancelBooking e s a i = (\<lparr>status = 503, body = Error DbNotConnected_de\<rparr>, s))"
  using assms
  by (simp add: listAllSlots_def listBookableSlots_def listAllSlotsWithStatus_def
      listBookings_def createSlot_down deleteSlot_down createBooking_down cancelBooking_down
      json_def with_status_def)

theorem store_unreachable_witness:
  "readyState ex_down \<noteq> 1 \<and> requireAdmin ex_down auth_ex = None \<and>
   slots ex_down \<noteq> [] \<and> bookings ex_down \<noteq> [] \<and>
   listAllSlots ex_env ex_down = \<lparr>status = 200, body = SlotArray []\<rparr> \<and>
   listBookableSlots ex_env ex_down = \<lparr>status = 200, body = SlotArray []\<rparr> \<and>
   listAllSlotsWithStatus ex_env ex_down = \<lparr>status = 200, body = StatusArray []\<rparr> \<and>
   listBookings ex_env ex_down auth_ex = \<lparr>status = 200, body = BookingArray []\<rparr> \<and>
   createSlot ex_env ex_down auth_ex slot_body_d
     = (\<lparr>status = 503, body = Error DbNotConnected_de\<rparr>, ex_down) \<and>
   deleteSlot ex_env ex_down auth_ex ''65a1f0c2e4b0a1b2c3d4e5f2''
     = (\<lparr>status = 503, body = Error DbNotConnected_de\<rparr>, ex_down) \<and>
   createBooking ex_env ex_down body_b
     = (\<lparr>status = 503, body = Error DbNotConnected_en\<rparr>, ex_down) \<and>
   cancelBooking ex_env ex_down auth_ex ''65a1f0c2e4b0a1b2c3d4e5f2''
     = (\<lparr>status = 503, body = Error DbNotConnected_de\<rparr>, ex_down)"
proof -
  have h: "readyState ex_down \<noteq> 1"
    by (simp add: ex_down_def)
  show ?thesis
    using h requireAdmin_down
      store_unreachable [OF h, of ex_env auth_ex slot_body_d "''65a1f0c2e4b0a1b2c3d4e5f2''" body_b]
    by (simp add: ex_down_def ex_state_def)
qed

section \<open>Bookable slots\<close>

lemma bookableSlots_filter:
  "bookableSlots ss bs =
     map (\<lambda>x. \<lparr>j_id = s_id x, j_date = s_date x, j_time = s_time x, j_isAvailable = True\<rparr>)
       (filter (\<lambda>x. \<forall>b\<in>set bs. b_slotId b \<noteq> s_id x) ss)"
proof -
  have "filter (\<lambda>x. s_id x \<notin> set (map b_slotId bs)) ss
      = filter (\<lambda>x. \<forall>b\<in>set bs. b_slotId b \<noteq> s_id x) ss"
    by (intro filter_cong refl) (force simp: image_iff)
  then show ?thesis
    by (simp add: bookableSlots_def)
qed

text \<open>
  Claim C3: over a connected store that answers the two reads, \<^verbatim>\<open>GET /api/bookable-slots\<close>
  answers 200 with the result
  of \<open>bookableSlots\<close> on the two collections it has read. For any two lists read, that
  result is the slots, in their order, whose id no booking references, each with
  \<^verbatim>\<open>isAvailable: true\<close>: no entry has an id that a booking references, and every slot whose
  id no booking references has its entry.
\<close>

theorem listBookableSlots_exact:
  "(readyState s = 1 \<and> fault e = None \<longrightarrow>
      listBookableSlots e s
        = \<lparr>status = 200, body = SlotArray (bookableSlots (slots s) (bookings s))\<rparr>) \<and>
   bookableSlots ss bs =
     map (\<lambda>x. \<lparr>j_id = s_id x, j_date = s_date x, j_time = s_time x, j_isAvailable = True\<rparr>)
       (filter (\<lambda>x. \<forall>b\<in>set bs. b_slotId b \<noteq> s_id x) ss) \<and>
   (\<forall>j\<in>set (bookableSlots ss bs). j_isAvailable j \<and> (\<forall>b\<in>set bs. b_slotId b \<noteq> j_id j)) \<and>
   (\<forall>x\<in>set ss. (\<forall>b\<in>set bs. b_slotId b \<noteq> s_id x) \<longrightarrow>
      \<lparr>j_id = s_id x, j_date = s_date x, j_time = s_time x, j_isAvailable = True\<rparr>
        \<in> set (bookableSlots ss bs))"
proof (intro conjI)
  show "readyState s = 1 \<and> fault e = None \<longrightarrow>
      listBookableSlots e s
        = \<lparr>status = 200, body = SlotArray (bookableSlots (slots s) (bookings s))\<rparr>"
    by (simp add: listBookableSlots_def json_def)
  show "bookableSlots ss bs =
     map (\<lambda>x. \<lparr>j_id = s_id x, j_date = s_date x, j_time = s_time x, j_isAvailable = True\<rparr>)
       (filter (\<lambda>x. \<forall>b\<in>set bs. b_slotId b \<noteq> s_id x) ss)"
    by (rule bookableSlots_filter)
  show "\<forall>j\<in>set (bookableSlots ss bs). j_isAvailable j \<and> (\<forall>b\<in>set bs. b_slotId b \<noteq> j_id j)"
    by (auto simp: bookableSlots_filter)
  show "\<forall>x\<in>set ss. (\<forall>b\<in>set bs. b_slotId b \<noteq> s_id x) \<longrightarrow>
      \<lparr>j_id = s_id x, j_date = s_date x, j_time = s_time x, j_isAvailable = True\<rparr>
        \<in> set (bookableSlots ss bs)"
    by (auto simp: bookableSlots_filter)
qed

theorem listBookableSlots_exact_witness:
  "readyState ex_state = 1 \<and> fault ex_env = None \<and>
   listBookableSlots ex_env ex_state = \<lparr>status = 200, body = SlotArray
     [\<lparr>j_id = ObjectId ''65a1f0c2e4b0a1b2c3d4e5f2'', j_date = ''2024-06-01'', j_time = ''14:30'',
       j_isAvailable = True\<rparr>,
      \<lparr>j_id = ObjectId ''65a1f0c2e4b0a1b2c3d4e5f3'', j_date = ''2024-05-31'', j_time = ''18:00'',
       j_isAvailable = True\<rparr>]\<rparr> \<and>
   slot_a \<in> set (slots ex_state) \<and> booking_a \<in> set (bookings ex_state) \<and>
   b_slotId booking_a = s_id slot_a"
  using listBookableSlots_exact [of ex_state ex_env "slots ex_state" "bookings ex_state"]
  by (simp add: eval_ex)

section \<open>Ordered listings\<close>



lemma json_key_format_slot: "(\<lambda>j. (j_date j, j_time j)) \<circ> format_slot = slot_key"
  by (auto simp: format_slot_def slot_key_def)

lemma json_key_format_booking: "(\<lambda>j. (k_date j, k_time j)) \<circ> format_booking = booking_key"
  by (auto simp: format_booking_def booking_key_def)

lemma listAllSlots_connected:
  "readyState s = 1 \<Longrightarrow> fault e = None \<Longrightarrow>
   listAllSlots e s = \<lparr>status = 200, body = SlotArray (map format_slot (sort_key slot_key (slots s)))\<rparr>"
  by (simp add: listAllSlots_def json_def slot_find_sorted_def)

lemma listBookings_connected:
  "readyState s = 1 \<Longrightarrow> fault e = None \<Longrightarrow> requireAdmin s a = None \<Longrightarrow>
   listBookings e s a
     = \<lparr>status = 200, body = BookingArray (map format_booking (sort_key booking_key (bookings s)))\<rparr>"
  by (simp add: listBookings_def json_def booking_find_sorted_def)

lemma sorted_listing:
  assumes "g \<circ> f = key"
  shows "sorted (map g (map f (sort_key key xs))) \<and>
     mset (map f (sort_key key xs)) = mset (map f xs) \<and>
     (\<forall>k. filter (\<lambda>j. g j = k) (map f (sort_key key xs)) = map f (filter (\<lambda>x. key x = k) xs))"
proof -
  have gf: "g (f x) = key x" for x
    using assms by (auto simp: fun_eq_iff)
  have "map g (map f (sort_key key xs)) = map key (sort_key key xs)"
    by (simp add: gf)
  then have 1: "sorted (map g (map f (sort_key key xs)))"
    by (simp only: sorted_sort_key)
  have 2: "mset (map f (sort_key key xs)) = mset (map f xs)"
    by simp
  have 3: "filter (\<lambda>j. g j = k) (map f (sort_key key xs)) = map f (filter (\<lambda>x. key x = k) xs)" for k
  proof -
    have "filter (\<lambda>j. g j = k) (map f (sort_key key xs))
        = map f (filter (\<lambda>x. key x = k) (sort_key key xs))"
      by (simp add: filter_map comp_def gf)
    then show ?thesis
      by (simp only: sort_key_stable)
  qed
  from 1 2 3 show ?thesis
    by blast
qed

text \<open>
  Claim C9: over a connected store that answers the query, \<^verbatim>\<open>GET /api/available-slots\<close>
  answers 200 with a list
  that holds every slot once (as a multiset it is the formatted collection), that ascends
  by (date, time) in the lexicographic order of strings, and in which the entries of any one
  (date, time) stand in the order the collection has them; \<^verbatim>\<open>GET /api/bookings\<close>, for a
  request that passes the admin gate, does the same for the bookings.
\<close>

theorem listings_ordered:
  assumes "readyState s = 1" and "fault e = None"
  shows
    "(\<exists>L. listAllSlots e s = \<lparr>status = 200, body = SlotArray L\<rparr> \<and>
        mset L = mset (map format_slot (slots s)) \<and>
        sorted (map (\<lambda>j. (j_date j, j_time j)) L) \<and>
        (\<forall>k. filter (\<lambda>j. (j_date j, j_time j) = k) L
              = map format_slot (filter (\<lambda>x. (s_date x, s_time x) = k) (slots s)))) \<and>
     (requireAdmin s a = None \<longrightarrow>
       (\<exists>L. listBookings e s a = \<lparr>status = 200, body = BookingArray L\<rparr> \<and>
          mset L = mset (map format_booking (bookings s)) \<and>
          sorted (map (\<lambda>j. (k_date j, k_time j)) L) \<and>
          (\<forall>k. filter (\<lambda>j. (k_date j, k_time j) = k) L
                = map format_booking (filter (\<lambda>x. (b_date x, b_time x) = k) (bookings s)))))"
proof (intro conjI impI)
  show "\<exists>L. listAllSlots e s = \<lparr>status = 200, body = SlotArray L\<rparr> \<and>
        mset L = mset (map format_slot (slots s)) \<and>
        sorted (map (\<lambda>j. (j_date j, j_time j)) L) \<and>
        (\<forall>k. filter (\<lambda>j. (j_date j, j_time j) = k) L
              = map format_slot (filter (\<lambda>x. (s_date x, s_time x) = k) (slots s)))"
    using assms sorted_listing [OF json_key_format_slot, of "slots s"]
    by (intro exI [of _ "map format_slot (sort_key slot_key (slots s))"])
      (simp add: listAllSlots_connected slot_key_def)
next
  assume "requireAdmin s a = None"
  then show "\<exists>L. listBookings e s a = \<lparr>status = 200, body = BookingArray L\<rparr> \<and>
          mset L = mset (map format_booking (bookings s)) \<and>
          sorted (map (\<lambda>j. (k_date j, k_time j)) L) \<and>
          (\<forall>k. filter (\<lambda>j. (k_date j, k_time j) = k) L
                = map format_booking (filter (\<lambda>x. (b_date x, b_time x) = k) (bookings s)))"
    using assms sorted_listing [OF json_key_format_booking, of "bookings s"]
    by (intro exI [of _ "map format_booking (sort_key booking_key (bookings s))"])
      (simp add: listBookings_connected booking_key_def)
qed


theorem listings_ordered_witness:
  "readyState ex_busy = 1 \<and> fault ex_env = None \<and> requireAdmin ex_busy auth_ex = None \<and>
   listAllSlots ex_env ex_busy = \<lparr>status = 200, body = SlotArray
     [format_slot slot_c, format_slot slot_a, format_slot slot_b]\<rparr> \<and>
   listBookings ex_env ex_busy auth_ex = \<lparr>status = 200, body = BookingArray
     [format_booking booking_c, format_booking booking_a, format_booking booking_a2]\<rparr> \<and>
   (\<exists>L. listAllSlots ex_env ex_busy = \<lparr>status = 200, body = SlotArray L\<rparr> \<and>
      mset L = mset (map format_slot (slots ex_busy)) \<and>
      sorted (map (\<lambda>j. (j_date j, j_time j)) L) \<and>
      (\<forall>k. filter (\<lambda>j. (j_date j, j_time j) = k) L
            = map format_slot (filter (\<lambda>x. (s_date x, s_time x) = k) (slots ex_busy)))) \<and>
   (\<exists>L. listBookings ex_env ex_busy auth_ex = \<lparr>status = 200, body = BookingArray L\<rparr> \<and>
      mset L = mset (map format_booking (bookings ex_busy)) \<and>
      sorted (map (\<lambda>j. (k_date j, k_time j)) L) \<and>
      (\<forall>k. filter (\<lambda>j. (k_date j, k_time j) = k) L
            = map format_booking (filter (\<lambda>x. (b_date x, b_time x) = k) (bookings ex_busy))))"
proof -
  have h: "readyState ex_busy = 1"
    by (simp add: ex_busy_def ex_state_def)
  have f: "fault ex_env = None"
    by (simp add: ex_env_def)
  have g: "requireAdmin ex_busy auth_ex = None"
    by (simp add: requireAdmin_def falsy_def or_empty_def startsWith_def ex_state_def
        ex_token_def auth_ex_def ex_busy_def)
  have 1: "listAllSlots ex_env ex_busy = \<lparr>status = 200, body = SlotArray
      [format_slot slot_c, format_slot slot_a, format_slot slot_b]\<rparr>"
    by (simp add: listAllSlots_connected [OF h f])
      (simp add: ex_busy_def ex_state_def slot_key_def slot_a_def slot_b_def slot_c_def)
  have 2: "listBookings ex_env ex_busy auth_ex = \<lparr>status = 200, body = BookingArray
      [format_booking booking_c, format_booking booking_a, format_booking booking_a2]\<rparr>"
    by (simp add: listBookings_connected [OF h f g])
      (simp add: ex_busy_def ex_state_def booking_key_def booking_a_def booking_a2_def
        booking_c_def)
  from h f g 1 2 listings_ordered [OF h f, of auth_ex] show ?thesis
    by blast
qed

section \<open>No slot is booked twice\<close>

lemma set_delete_first: "set (delete_first P xs) \<subseteq> set xs"
  by (induction xs) auto

lemma distinct_delete_first: "distinct (map f xs) \<Longrightarrow> distinct (map f (delete_first P xs))"
proof (induction xs)
  case Nil
  then show ?case by simp
next
  case (Cons x xs)
  then show ?case
    using set_delete_first [of P xs] by auto
qed

lemma booking_save_distinct:
  assumes "booking_save bs x = Inr bs'" and "distinct (map b_slotId bs)"
  shows "distinct (map b_slotId bs')"
proof -
  from assms(1) have new: "\<forall>y\<in>set bs. b_slotId y \<noteq> b_slotId x" and bs': "bs' = bs @ [x]"
    by (auto simp: booking_save_def list_ex_iff split: if_splits)
  from new have "b_slotId x \<notin> b_slotId ` set bs"
    by force
  with assms(2) bs' show ?thesis
    by simp
qed

lemma step_bookings_distinct:
  assumes "distinct (map b_slotId (bookings s))"
  shows "distinct (map b_slotId (bookings (snd (step e t s))))"
proof (cases "fault e")
  case None
  with assms show ?thesis
    by (cases t)
      (auto simp: booking_findByIdAndDelete_def distinct_delete_first
        split: option.splits sum.splits prod.splits dest: booking_save_distinct)
next
  case (Some error)
  with assms show ?thesis
    by (cases t) simp_all
qed

lemma bookings_login [simp]: "bookings (snd (login e s pw)) = bookings s"
  by (simp add: login_def Let_def)

lemma bookings_logout [simp]: "bookings (snd (logout s a)) = bookings s"
  by (simp add: logout_def Let_def)

lemma admit_bookings [simp]: "bookings (snd (admit e r s)) = bookings s"
  by (cases r) simp_all

lemma fire_bookings_distinct:
  "distinct (map b_slotId (bookings (c_state c))) \<Longrightarrow>
   distinct (map b_slotId (bookings (c_state (fire ev c))))"
  by (cases ev) (simp_all add: step_bookings_distinct)

lemma reachable_bookings_distinct:
  "reachable c \<Longrightarrow> distinct (map b_slotId (bookings (c_state c)))"
  by (induction rule: reachable.induct) (simp_all add: initial_def fire_bookings_distinct)

lemma awaits_step: "awaits t \<noteq> 0 \<Longrightarrow> awaits (fst (step e t s)) < awaits t"
  by (cases t) (auto split: option.splits sum.splits prod.splits)

lemma run_bookings_distinct:
  "distinct (map b_slotId (bookings s)) \<Longrightarrow> distinct (map b_slotId (bookings (snd (run e t s))))"
proof (induction "awaits t" arbitrary: t s rule: less_induct)
  case less
  show ?case
  proof (cases "awaits t = 0")
    case True
    then obtain r where "t = Done r"
      by (cases t) auto
    with less.prems show ?thesis
      by simp
  next
    case False
    have "distinct (map b_slotId (bookings (snd (run e (fst (step e t s)) (snd (step e t s))))))"
      using awaits_step [OF False] less.prems
      by (intro less.hyps step_bookings_distinct)
    then show ?thesis
      by (simp add: run_step [OF False])
  qed
qed

lemma at_most_one: "distinct (map f xs) \<Longrightarrow> length (filter (\<lambda>x. f x = i) xs) \<le> 1"
proof (induction xs)
  case Nil
  then show ?case by simp
next
  case (Cons x xs)
  show ?case
  proof (cases "f x = i")
    case True
    have "f y \<noteq> i" if "y \<in> set xs" for y
    proof
      assume "f y = i"
      with True that have "f x \<in> f ` set xs"
        by (metis imageI)
      with Cons.prems show False
        by simp
    qed
    then have "filter (\<lambda>x. f x = i) xs = []"
      by (simp add: filter_empty_conv)
    with True show ?thesis
      by simp
  next
    case False
    with Cons show ?thesis
      by simp
  qed
qed

lemma reachable_fold: "reachable c \<Longrightarrow> reachable (fold fire evs c)"
  by (induction evs arbitrary: c) (simp_all add: reachable.fire)

lemma race_pool: "c_pool (fold fire race_booking c_init) =
   [Done \<lparr>status = 200, body = LoginSuccess ex_token\<rparr>,
    Done \<lparr>status = 200, body = BookingObject (format_booking booking_b)\<rparr>,
    CB_save new_booking_b2]"
  by (simp add: eval_race eval_token)

lemma race_state:
  "c_state (fold fire race_booking c_init) = ex_state\<lparr>bookings := [booking_a, booking_b]\<rparr>"
  by (simp add: eval_race eval_token)

lemma initial_c_init: "initial c_init"
  by (simp add: initial_def c_init_def ex_state_def)

text \<open>
  Claim C1: in every configuration the server can reach, whatever requests arrive and
  however their handlers interleave, each slot id is referenced by at most one booking;
  a \<^verbatim>\<open>POST /api/bookings\<close> running alone keeps the slot ids of the bookings distinct; on a
  valid request whose slotId casts to the id of an existing slot that a booking references,
  over a connected store, it answers 400 (conflict) from its check and changes nothing; and
  a handler that has passed
  the check and reaches \<^verbatim>\<open>save()\<close> when a booking for its slot has appeared meanwhile
  gets the duplicate-key error of the unique index and answers 400 (conflict), not 500,
  changing nothing. The last two statements are about a store that answers the queries.
\<close>

theorem no_double_booking:
  "(reachable c \<longrightarrow>
      (\<forall>i. length (filter (\<lambda>b. b_slotId b = i) (bookings (c_state c))) \<le> 1)) \<and>
   (distinct (map b_slotId (bookings s)) \<longrightarrow>
      distinct (map b_slotId (bookings (snd (createBooking e s q))))) \<and>
   (readyState s = 1 \<and> fault e = None \<and>
    \<not> falsy (q_slotId q) \<and> \<not> falsy (q_clientName q) \<and> \<not> falsy (q_clientEmail q) \<and>
    castObjectId (bson_string12 s) (or_empty (q_slotId q)) = Inr k \<and>
    (\<exists>x\<in>set (slots s). s_id x = k) \<and>
    (\<exists>b\<in>set (bookings s). b_slotId b = k) \<longrightarrow>
      createBooking e s q = (\<lparr>status = 400, body = Error AlreadyBooked_de\<rparr>, s)) \<and>
   (fault e' = None \<and> (\<exists>b\<in>set (bookings s'). b_slotId b = n_slotId n) \<longrightarrow>
      step e' (CB_save n) s' = (Done \<lparr>status = 400, body = Error AlreadyBooked_en\<rparr>, s'))"
proof (intro conjI impI allI)
  fix i
  assume "reachable c"
  then show "length (filter (\<lambda>b. b_slotId b = i) (bookings (c_state c))) \<le> 1"
    by (intro at_most_one reachable_bookings_distinct)
next
  assume "distinct (map b_slotId (bookings s))"
  then show "distinct (map b_slotId (bookings (snd (createBooking e s q))))"
    unfolding createBooking_def by (rule run_bookings_distinct)
next
  assume a: "readyState s = 1 \<and> fault e = None \<and>
    \<not> falsy (q_slotId q) \<and> \<not> falsy (q_clientName q) \<and> \<not> falsy (q_clientEmail q) \<and>
    castObjectId (bson_string12 s) (or_empty (q_slotId q)) = Inr k \<and>
    (\<exists>x\<in>set (slots s). s_id x = k) \<and>
    (\<exists>b\<in>set (bookings s). b_slotId b = k)"
  then obtain x where "find (\<lambda>x. s_id x = k) (slots s) = Some x"
    using find_Some_ex [of "slots s" "\<lambda>x. s_id x = k"] by blast
  with a have "run e (CB_findById q) s = (with_status 400 (Error AlreadyBooked_de), s)"
    by (intro run_CB_conflict [where i = k]) simp_all
  with a show "createBooking e s q = (\<lparr>status = 400, body = Error AlreadyBooked_de\<rparr>, s)"
    by (simp add: createBooking_valid with_status_def)
next
  assume "fault e' = None \<and> (\<exists>b\<in>set (bookings s'). b_slotId b = n_slotId n)"
  then have "step e' (CB_save n) s' = (Done (with_status 400 (Error AlreadyBooked_en)), s')"
    by (intro step_CB_save_dup) simp_all
  then show "step e' (CB_save n) s' = (Done \<lparr>status = 400, body = Error AlreadyBooked_en\<rparr>, s')"
    by (simp only: with_status_def)
qed

theorem no_double_booking_witness:
  "reachable (fire (Resume ex_env2 2) (fold fire race_booking c_init)) \<and>
   fault ex_env2 = None \<and>
   c_pool (fold fire race_booking c_init) ! 2 = CB_save new_booking_b2 \<and>
   bookings (c_state (fold fire race_booking c_init)) = [booking_a, booking_b] \<and>
   b_slotId booking_b = n_slotId new_booking_b2 \<and>
   fire (Resume ex_env2 2) (fold fire race_booking c_init) =
     \<lparr>c_state = ex_state\<lparr>bookings := [booking_a, booking_b]\<rparr>,
      c_pool = [Done \<lparr>status = 200, body = LoginSuccess ex_token\<rparr>,
                Done \<lparr>status = 200, body = BookingObject (format_booking booking_b)\<rparr>,
                Done \<lparr>status = 400, body = Error AlreadyBooked_en\<rparr>]\<rparr> \<and>
   (\<forall>i. length (filter (\<lambda>b. b_slotId b = i) [booking_a, booking_b]) \<le> 1) \<and>
   distinct (map b_slotId (bookings (snd (createBooking ex_env ex_state body_b)))) \<and>
   createBooking ex_env2 (ex_state\<lparr>bookings := [booking_a, booking_b]\<rparr>) body_b2
     = (\<lparr>status = 400, body = Error AlreadyBooked_de\<rparr>,
        ex_state\<lparr>bookings := [booking_a, booking_b]\<rparr>)"
proof -
  let ?c = "fold fire race_booking c_init"
  let ?s = "ex_state\<lparr>bookings := [booking_a, booking_b]\<rparr>"
  have r: "reachable (fire (Resume ex_env2 2) ?c)"
    by (intro reachable.fire reachable_fold reachable.start initial_c_init)
  have f2: "fault ex_env2 = None"
    by (simp add: ex_env2_def)
  have dup: "\<exists>b\<in>set (bookings (c_state ?c)). b_slotId b = n_slotId new_booking_b2"
    by (simp add: race_state booking_b_def new_booking_b2_def)
  have last: "fire (Resume ex_env2 2) ?c =
     \<lparr>c_state = ?s,
      c_pool = [Done \<lparr>status = 200, body = LoginSuccess ex_token\<rparr>,
                Done \<lparr>status = 200, body = BookingObject (format_booking booking_b)\<rparr>,
                Done \<lparr>status = 400, body = Error AlreadyBooked_en\<rparr>]\<rparr>"
    using no_double_booking [where e' = ex_env2 and s' = "c_state ?c" and n = new_booking_b2,
        THEN conjunct2, THEN conjunct2, THEN conjunct2, rule_format, OF conjI [OF f2 dup]]
    by (simp add: race_pool) (simp add: race_state)
  have inv: "\<forall>i. length (filter (\<lambda>b. b_slotId b = i) [booking_a, booking_b]) \<le> 1"
    using no_double_booking [where c = "fire (Resume ex_env2 2) ?c", THEN conjunct1,
        rule_format, OF r]
    unfolding last by simp
  have seq: "distinct (map b_slotId (bookings (snd (createBooking ex_env ex_state body_b))))"
    using no_double_booking [where s = ex_state and e = ex_env and q = body_b,
        THEN conjunct2, THEN conjunct1]
    by (simp add: ex_state_def booking_a_def)
  have pre: "createBooking ex_env2 ?s body_b2 = (\<lparr>status = 400, body = Error AlreadyBooked_de\<rparr>, ?s)"
    using f2 no_double_booking [where s = ?s and e = ex_env2 and q = body_b2
        and k = "ObjectId ''65a1f0c2e4b0a1b2c3d4e5f2''",
        THEN conjunct2, THEN conjunct2, THEN conjunct1]
    by (simp add: eval_ex body_b2_def booking_b_def)
  from r f2 last inv seq pre show ?thesis
    by (simp add: race_pool race_state booking_b_def new_booking_b2_def)
qed

section \<open>The admin gate\<close>

lemma digit36_alphabet: "digit36 d \<in> set alphabet36"
proof -
  have "d mod 36 < length alphabet36"
    by (simp add: alphabet36_def)
  then show ?thesis
    unfolding digit36_def by (rule nth_mem)
qed

lemma digit10_alphabet: "digit10 d \<in> set alphabet36"
proof -
  have "d mod 10 < length ''0123456789''"
    by simp
  then have "digit10 d \<in> set ''0123456789''"
    unfolding digit10_def by (rule nth_mem)
  then show ?thesis
    by (auto simp: alphabet36_def)
qed

lemma toString10_minted: "minted (toString10 n)"
proof (induction n rule: toString10.induct)
  case (1 n)
  show ?case
  proof (cases "n < 10")
    case True
    then show ?thesis
      by (simp add: toString10_small minted_def digit10_alphabet)
  next
    case False
    with 1 show ?thesis
      by (simp add: toString10_large minted_def digit10_alphabet)
  qed
qed

lemma mintToken_minted: "minted (mintToken e)"
  using toString10_minted [of "now e"] digit36_alphabet
  by (auto simp: mintToken_def substr_toString36 minted_def dest: in_set_takeD)

lemma B_not_alphabet: "CHR ''B'' \<notin> set alphabet36"
  by (simp add: alphabet36_def)

lemma minted_no_B: "minted t \<Longrightarrow> CHR ''B'' \<notin> set t"
  using B_not_alphabet by (auto simp: minted_def)

lemma replace_absent: "pat \<noteq> [] \<Longrightarrow> hd pat \<notin> set s \<Longrightarrow> replace s pat rep = s"
proof (induction s)
  case Nil
  then show ?case by simp
next
  case (Cons c cs)
  from Cons.prems have "\<not> startsWith (c # cs) pat"
    by (cases pat) (auto simp: startsWith_def)
  with Cons show ?case
    by simp
qed

lemma replace_first: "pat \<noteq> [] \<Longrightarrow> hd pat \<notin> set a \<Longrightarrow> replace (a @ pat @ b) pat rep = a @ rep @ b"
proof (induction a)
  case Nil
  then obtain p ps where "pat = p # ps"
    by (cases pat) auto
  then show ?case
    by (simp add: startsWith_def)
next
  case (Cons c cs)
  from Cons.prems have "\<not> startsWith (c # cs @ pat @ b) pat"
    by (cases pat) (auto simp: startsWith_def)
  with Cons show ?case
    by simp
qed

lemma step_adminSessions [simp]: "adminSessions (snd (step e t s)) = adminSessions s"
  by (cases t) (auto split: option.splits sum.splits prod.splits)

lemma admit_adminSessions:
  "adminSessions (snd (admit e r s)) \<subseteq> insert (mintToken e) (adminSessions s)"
  by (cases r) (auto simp: login_def logout_def Let_def)

lemma fire_minted:
  assumes "\<forall>t\<in>adminSessions (c_state c). minted t"
  shows "\<forall>t\<in>adminSessions (c_state (fire ev c)). minted t"
proof (cases ev)
  case (Arrive e r)
  then show ?thesis
    using assms admit_adminSessions [of e r "c_state c"] mintToken_minted [of e] by auto
next
  case (Resume e i)
  then show ?thesis
    using assms by simp
next
  case (Connection n)
  then show ?thesis
    using assms by simp
qed

lemma reachable_minted: "reachable c \<Longrightarrow> \<forall>t\<in>adminSessions (c_state c). minted t"
proof (induction rule: reachable.induct)
  case (start c)
  then show ?case
    by (simp add: initial_def)
next
  case (fire c ev)
  from fire.IH show ?case
    by (rule fire_minted)
qed

lemma requireAdmin_iff:
  "requireAdmin s (Some h) = None \<longleftrightarrow> h \<noteq> [] \<and> replace h ''Bearer '' [] \<in> adminSessions s"
  by (auto simp: requireAdmin_def falsy_def or_empty_def Let_def)

lemma requireAdmin_deny:
  "requireAdmin s a \<noteq> None \<Longrightarrow> requireAdmin s a = Some unauthorized"
  by (auto simp: requireAdmin_def Let_def split: if_splits)

lemma login_config:
  "fire (Arrive ex_env (Login (Some ''admin123''))) c_init =
     \<lparr>c_state = ex_state, c_pool = [Done \<lparr>status = 200, body = LoginSuccess ex_token\<rparr>]\<rparr>"
  by (simp add: eval_race eval_token)

text \<open>
  Claim C10: \<^verbatim>\<open>requireAdmin\<close> takes as token the header with the first occurrence of
  'Bearer ' removed. In every configuration the server can reach and for every registered
  token \<open>t\<close>: the header \<open>t\<close> itself passes the gate; every header that \<open>replace\<close> turns
  into \<open>t\<close> passes; in particular \<open>t\<close> with 'Bearer ' inserted at any position, front,
  middle or end, is turned into \<open>t\<close> and passes; and only the first occurrence is
  removed, so 'Bearer Bearer ' followed by \<open>t\<close> leaves 'Bearer ' followed by \<open>t\<close> and is
  answered 401.
\<close>

theorem requireAdmin_first_occurrence:
  assumes "reachable c" and "t \<in> adminSessions (c_state c)"
  shows
    "requireAdmin (c_state c) (Some t) = None \<and>
     (\<forall>h. replace h ''Bearer '' [] = t \<longrightarrow> requireAdmin (c_state c) (Some h) = None) \<and>
     (\<forall>a b. a @ b = t \<longrightarrow>
        replace (a @ ''Bearer '' @ b) ''Bearer '' [] = t \<and>
        requireAdmin (c_state c) (Some (a @ ''Bearer '' @ b)) = None) \<and>
     replace (''Bearer Bearer '' @ t) ''Bearer '' [] = ''Bearer '' @ t \<and>
     requireAdmin (c_state c) (Some (''Bearer Bearer '' @ t)) = Some unauthorized"
proof -
  have m: "minted t"
    using assms reachable_minted by blast
  then have ne: "t \<noteq> []" and noB: "CHR ''B'' \<notin> set t"
    by (simp_all add: minted_def minted_no_B)
  have same: "replace t ''Bearer '' [] = t"
    using noB by (intro replace_absent) simp_all
  have 1: "requireAdmin (c_state c) (Some t) = None"
    using assms(2) ne same by (simp add: requireAdmin_iff)
  have 2: "requireAdmin (c_state c) (Some h) = None" if "replace h ''Bearer '' [] = t" for h
  proof -
    from that ne have "h \<noteq> []"
      by auto
    with that assms(2) show ?thesis
      by (simp add: requireAdmin_iff)
  qed
  have 3: "replace (a @ ''Bearer '' @ b) ''Bearer '' [] = t" if "a @ b = t" for a b
  proof -
    from that noB have "hd ''Bearer '' \<notin> set a"
      by auto
    then have "replace (a @ ''Bearer '' @ b) ''Bearer '' [] = a @ [] @ b"
      by (intro replace_first) simp_all
    with that show ?thesis
      by simp
  qed
  have 4: "replace (''Bearer Bearer '' @ t) ''Bearer '' [] = ''Bearer '' @ t"
    by (simp add: startsWith_def)
  have "\<not> minted (''Bearer '' @ t)"
    using B_not_alphabet by (auto simp: minted_def)
  then have "''Bearer '' @ t \<notin> adminSessions (c_state c)"
    using assms(1) reachable_minted by blast
  then have "requireAdmin (c_state c) (Some (''Bearer Bearer '' @ t)) \<noteq> None"
    unfolding requireAdmin_iff 4 by simp
  then have 5: "requireAdmin (c_state c) (Some (''Bearer Bearer '' @ t)) = Some unauthorized"
    by (rule requireAdmin_deny)
  from 1 2 3 4 5 show ?thesis
    by blast
qed

theorem requireAdmin_first_occurrence_witness:
  "reachable (fire (Arrive ex_env (Login (Some ''admin123''))) c_init) \<and>
   ex_token \<in> adminSessions (c_state (fire (Arrive ex_env (Login (Some ''admin123''))) c_init)) \<and>
   requireAdmin ex_state (Some ''17000000000004fzyo82mv'') = None \<and>
   requireAdmin ex_state (Some ''Bearer 17000000000004fzyo82mv'') = None \<and>
   requireAdmin ex_state (Some ''1700000000000Bearer 4fzyo82mv'') = None \<and>
   requireAdmin ex_state (Some ''17000000000004fzyo82mvBearer '') = None \<and>
   requireAdmin ex_state (Some ''Bearer Bearer 17000000000004fzyo82mv'') = Some unauthorized"
proof -
  let ?c = "fire (Arrive ex_env (Login (Some ''admin123''))) c_init"
  have r: "reachable ?c"
    by (intro reachable.fire reachable.start initial_c_init)
  have t: "ex_token \<in> adminSessions (c_state ?c)"
    unfolding login_config by (simp add: ex_state_def)
  have s: "c_state ?c = ex_state"
    unfolding login_config by simp
  from requireAdmin_first_occurrence [OF r t] r t show ?thesis
    unfolding s
    using spec [of "\<lambda>h. replace h ''Bearer '' [] = ex_token \<longrightarrow> requireAdmin ex_state (Some h) = None"
        "''17000000000004fzyo82mvBearer ''"]
    by (auto simp: ex_token_def startsWith_def
        dest: spec [of _ "''1700000000000''"] )
qed

end
